theory Spec2Isabelle
  imports Complex_Main "HOL-Library.AList" "HOL-Library.Char_ord" "HOL-Library.List_Lexorder"
    "HOL-Library.Product_Lexorder" "HOL-Library.Multiset"
begin

section \<open>Values of the data store\<close>

text \<open>
  Monetary columns are NUMERIC and arrive in Python as \<open>Decimal\<close>: exact decimal
  numbers, modelled as rationals (the special value NaN is outside the model). The data
  store adds such amounts exactly. Python's \<open>Decimal\<close> operations round their result to
  the 28 significant digits of the default context, and \<open>float()\<close> rounds to the nearest
  binary floating-point number of 53 significant bits; both are modelled below.

  A calendar date is its day number, counted from 1970-01-01 in the proleptic Gregorian
  calendar (as the data store keeps a date: a day count from an epoch). The civil fields
  are computed from the day number by the usual era/day-of-era arithmetic.
\<close>

type_synonym date = int

definition civil_from_days :: "date \<Rightarrow> int \<times> nat \<times> nat" where
  "civil_from_days z0 =
     (let z = z0 + 719468;
          era = z div 146097;
          doe = z mod 146097;
          yoe = (doe - doe div 1460 + doe div 36524 - doe div 146096) div 365;
          y = yoe + era * 400;
          doy = doe - (365 * yoe + yoe div 4 - yoe div 100);
          mp = (5 * doy + 2) div 153;
          d = doy - (153 * mp + 2) div 5 + 1;
          m = (if mp < 10 then mp + 3 else mp - 9)
      in (if m \<le> 2 then y + 1 else y, nat m, nat d))"

definition make_date :: "int \<Rightarrow> int \<Rightarrow> int \<Rightarrow> date" where
  "make_date y0 m d =
     (let y = (if m \<le> 2 then y0 - 1 else y0);
          era = y div 400;
          yoe = y - era * 400;
          doy = (153 * (if m > 2 then m - 3 else m + 9) + 2) div 5 + d - 1;
          doe = yoe * 365 + yoe div 4 - yoe div 100 + doy
      in era * 146097 + doe - 719468)"

definition year_of :: "date \<Rightarrow> int" where
  "year_of d = fst (civil_from_days d)"

text \<open>\<open>date_part('month', d)\<close>: the calendar month number, 1 to 12.\<close>

definition date_part_month :: "date \<Rightarrow> nat" where
  "date_part_month d = fst (snd (civil_from_days d))"

subsection \<open>Rendering dates as text\<close>

definition digit_char :: "nat \<Rightarrow> char" where
  "digit_char n = ''0123456789'' ! n"

fun dec :: "nat \<Rightarrow> string" where
  "dec n = (if n < 10 then [digit_char n] else dec (n div 10) @ [digit_char (n mod 10)])"

declare dec.simps [simp del]

definition lpad0 :: "nat \<Rightarrow> string \<Rightarrow> string" where
  "lpad0 w s = replicate (w - length s) (CHR ''0'') @ s"

text \<open>
  \<open>to_char(d, 'YYYY-MM')\<close>. The pattern \<open>YYYY\<close> writes the year with four or more
  digits: zero-padded below 1000, and all its digits from 10000 on. A year before the
  common era is written by its number BC.
\<close>

definition yyyy_mm :: "int \<Rightarrow> nat \<Rightarrow> string" where
  "yyyy_mm y m = lpad0 4 (dec (if 0 < y then nat y else nat (1 - y))) @ ''-'' @ lpad0 2 (dec m)"

definition to_char_YYYY_MM :: "date \<Rightarrow> string" where
  "to_char_YYYY_MM d = yyyy_mm (year_of d) (date_part_month d)"

text \<open>The year and the month of a date: the pair that orders months in time.\<close>

definition year_month :: "date \<Rightarrow> int \<times> nat" where
  "year_month d = (year_of d, date_part_month d)"

text \<open>
  \<open>to_char(d, 'DY')\<close>: the upper-case three-letter English day name. Day 0
  (1970-01-01) is a Thursday.
\<close>

definition day_names :: "string list" where
  "day_names = [''SUN'', ''MON'', ''TUE'', ''WED'', ''THU'', ''FRI'', ''SAT'']"

definition to_char_DY :: "date \<Rightarrow> string" where
  "to_char_DY d = day_names ! nat ((d + 4) mod 7)"

subsection \<open>Python string methods\<close>

definition is_space :: "char \<Rightarrow> bool" where
  "is_space c = (c \<in> set [CHR '' '', CHR 0x09, CHR 0x0A, CHR 0x0B, CHR 0x0C, CHR 0x0D])"

definition strip :: "string \<Rightarrow> string" where
  "strip s = rev (dropWhile is_space (rev (dropWhile is_space s)))"

definition is_lower :: "char \<Rightarrow> bool" where
  "is_lower c = (97 \<le> (of_char c :: nat) \<and> (of_char c :: nat) \<le> 122)"

definition is_upper :: "char \<Rightarrow> bool" where
  "is_upper c = (65 \<le> (of_char c :: nat) \<and> (of_char c :: nat) \<le> 90)"

definition to_upper :: "char \<Rightarrow> char" where
  "to_upper c = (if is_lower c then char_of ((of_char c :: nat) - 32) else c)"

definition to_lower :: "char \<Rightarrow> char" where
  "to_lower c = (if is_upper c then char_of ((of_char c :: nat) + 32) else c)"

definition upper :: "string \<Rightarrow> string" where
  "upper s = map to_upper s"

subsection \<open>Python dictionaries\<close>

text \<open>
  A \<open>dict\<close> keeps its keys in insertion order; storing under a key that is present
  replaces the value and keeps the key's place. A comprehension stores its pairs one
  after the other.
\<close>

definition py_dict :: "('k \<times> 'v) list \<Rightarrow> ('k \<times> 'v) list" where
  "py_dict ps = foldl (\<lambda>d (k, v). AList.update k v d) [] ps"

definition dict_get :: "('k \<times> 'v) list \<Rightarrow> 'k \<Rightarrow> 'v \<Rightarrow> 'v" where
  "dict_get d k dflt = (case map_of d k of None \<Rightarrow> dflt | Some v \<Rightarrow> v)"

definition dict_keys :: "('k \<times> 'v) list \<Rightarrow> 'k list" where
  "dict_keys d = map fst d"

definition dict_values :: "('k \<times> 'v) list \<Rightarrow> 'v list" where
  "dict_values d = map snd d"

section \<open>Rounded arithmetic\<close>

text \<open>
  \<open>round_sig b p x\<close> is \<open>x\<close> rounded to \<open>p\<close> significant digits in base \<open>b\<close>, ties to
  the even neighbour. \<open>ndigits b n\<close> is the number of digits of \<open>n\<close> in base \<open>b\<close>, and
  \<open>ilog b x\<close> the position of the leading digit of a positive \<open>x\<close>.
\<close>

function ndigits :: "int \<Rightarrow> int \<Rightarrow> nat" where
  "ndigits b n = (if n < b \<or> b < 2 then 1 else Suc (ndigits b (n div b)))"
  by pat_completeness auto
termination
  by (relation "measure (\<lambda>(b, n). nat n)") (auto simp add: int_div_less_self)

declare ndigits.simps [simp del]

definition base_pow :: "int \<Rightarrow> int \<Rightarrow> rat" where
  "base_pow b s = (if 0 \<le> s then of_int b ^ nat s else 1 / of_int b ^ nat (- s))"

definition ilog :: "int \<Rightarrow> rat \<Rightarrow> int" where
  "ilog b x =
     (if 1 \<le> x then int (ndigits b \<lfloor>x\<rfloor>) - 1
      else - int (ndigits b (\<lceil>1 / x\<rceil> - 1)))"

definition round_half_even :: "rat \<Rightarrow> int" where
  "round_half_even r =
     (let f = \<lfloor>r\<rfloor>; d = r - of_int f
      in if d < 1 / 2 then f else if 1 / 2 < d then f + 1 else if even f then f else f + 1)"

definition round_sig :: "int \<Rightarrow> nat \<Rightarrow> rat \<Rightarrow> rat" where
  "round_sig b p x =
     (if x = 0 then 0
      else let s = int p - 1 - ilog b \<bar>x\<bar>
           in sgn x * of_int (round_half_even (\<bar>x\<bar> * base_pow b s)) / base_pow b s)"

text \<open>
  \<open>Decimal\<close> division and multiplication in the default context. Dividing by zero
  raises (\<open>DivisionByZero\<close>, or \<open>InvalidOperation\<close> for \<open>0 / 0\<close>).
\<close>

datatype arith_error = DivisionByZero | InvalidOperation

definition decimal_div :: "rat \<Rightarrow> rat \<Rightarrow> arith_error + rat" where
  "decimal_div a b =
     (if b = 0 then Inl (if a = 0 then InvalidOperation else DivisionByZero)
      else Inr (round_sig 10 28 (a / b)))"

definition decimal_mul :: "rat \<Rightarrow> rat \<Rightarrow> rat" where
  "decimal_mul a b = round_sig 10 28 (a * b)"

text \<open>
  \<open>float(x)\<close> for a \<open>Decimal\<close> in the range of the normal binary64 numbers, the sum of
  two floats, and \<open>sum()\<close> over floats (which starts from the integer 0).
\<close>

definition float64 :: "rat \<Rightarrow> rat" where
  "float64 x = round_sig 2 53 x"

definition float_add :: "rat \<Rightarrow> rat \<Rightarrow> rat" where
  "float_add x y = float64 (x + y)"

definition py_sum :: "rat list \<Rightarrow> rat" where
  "py_sum xs = foldl float_add 0 xs"

section \<open>Persistence schema\<close>

text \<open>
  One record per table row, with the columns the application reads or writes. Tables are
  lists of rows in insertion order.
\<close>

record user =
  u_id :: nat
  u_full_name :: string
  u_email :: string
  u_password_hash :: string
  u_profile_picture_url :: "string option"

record income_row =
  inc_user_id :: nat
  inc_monthly_income :: rat
  inc_currency :: string

record other_income =
  oi_user_id :: nat
  oi_source_name :: string
  oi_amount :: rat

record budget_row =
  b_user_id :: nat
  b_total_monthly_budget :: rat

record category_budget =
  cb_user_id :: nat
  cb_category_name :: string
  cb_amount :: rat

record expense_row =
  e_id :: nat
  e_user_id :: nat
  e_title :: string
  e_amount :: rat
  e_category :: string
  e_expense_date :: date
  e_description :: string
  e_payment_method :: string

record investment =
  inv_id :: nat
  inv_user_id :: nat
  inv_investment_name :: string
  inv_amount_invested :: rat
  inv_investment_type :: string
  inv_investment_date :: date

record asset =
  a_id :: nat
  a_user_id :: nat
  a_asset_name :: string
  a_value :: rat

record liability =
  l_id :: nat
  l_user_id :: nat
  l_liability_name :: string
  l_amount_owed :: rat

record financial_goal =
  g_id :: nat
  g_user_id :: nat
  g_goal_name :: string
  g_target_amount :: rat
  g_goal_type :: string

record db =
  users :: "user list"
  incomes :: "income_row list"
  other_incomes :: "other_income list"
  budgets :: "budget_row list"
  category_budgets :: "category_budget list"
  expenses :: "expense_row list"
  investments :: "investment list"
  assets :: "asset list"
  liabilities :: "liability list"
  financial_goals :: "financial_goal list"

section \<open>SQL aggregates\<close>

text \<open>\<open>SUM\<close> over no rows is NULL; Python's \<open>x or 0\<close> turns NULL (and a zero) into 0.\<close>

definition sql_sum :: "rat list \<Rightarrow> rat option" where
  "sql_sum xs = (if xs = [] then None else Some (sum_list xs))"

definition or_zero :: "rat option \<Rightarrow> rat" where
  "or_zero x = (case x of None \<Rightarrow> 0 | Some v \<Rightarrow> (if v = 0 then 0 else v))"

text \<open>
  \<open>GROUP BY\<close>: one group per distinct key, holding the rows with that key. Without an
  \<open>ORDER BY\<close> the data store returns the groups in an order of its choosing, and it
  breaks the ties of an \<open>ORDER BY\<close> as it likes; the model fixes one such order. The
  properties proved below are stated so that they do not depend on that choice.
\<close>

definition sql_group_by :: "('r \<Rightarrow> 'k) \<Rightarrow> 'r list \<Rightarrow> ('k \<times> 'r list) list" where
  "sql_group_by key rows = map (\<lambda>k. (k, filter (\<lambda>r. key r = k) rows)) (remdups (map key rows))"

definition order_by :: "('r \<Rightarrow> 'k::linorder) \<Rightarrow> 'r list \<Rightarrow> 'r list" where
  "order_by key rows = sort_key key rows"

definition order_by_desc :: "('r \<Rightarrow> 'k::linorder) \<Rightarrow> 'r list \<Rightarrow> 'r list" where
  "order_by_desc key rows = rev (sort_key key rows)"

section \<open>Dashboard\<close>

text \<open>
  The queries of the \<open>dashboard\<close> handler, each the meaning of its SQL text over the
  tables, followed by the Python that post-processes the fetched rows. \<open>today\<close> is
  \<open>CURRENT_DATE\<close>.
\<close>

definition fetchone :: "'r list \<Rightarrow> 'r option" where
  "fetchone rows = (case rows of [] \<Rightarrow> None | r # _ \<Rightarrow> Some r)"

text \<open>\<open>date_part('month', expense_date) = date_part('month', CURRENT_DATE)\<close>\<close>

definition in_current_month :: "date \<Rightarrow> expense_row \<Rightarrow> bool" where
  "in_current_month today e = (date_part_month (e_expense_date e) = date_part_month today)"

definition month_expenses :: "db \<Rightarrow> nat \<Rightarrow> date \<Rightarrow> expense_row list" where
  "month_expenses d user_id today =
     filter (\<lambda>e. e_user_id e = user_id \<and> in_current_month today e) (expenses d)"

text \<open>\<open>SELECT SUM(amount) as total FROM expenses WHERE user_id = %s AND (this month)\<close>\<close>

definition q_total_spent :: "db \<Rightarrow> nat \<Rightarrow> date \<Rightarrow> rat option" where
  "q_total_spent d user_id today = sql_sum (map e_amount (month_expenses d user_id today))"

definition q_income :: "db \<Rightarrow> nat \<Rightarrow> income_row list" where
  "q_income d user_id = filter (\<lambda>r. inc_user_id r = user_id) (incomes d)"

definition q_budget :: "db \<Rightarrow> nat \<Rightarrow> budget_row list" where
  "q_budget d user_id = filter (\<lambda>r. b_user_id r = user_id) (budgets d)"

definition q_goals :: "db \<Rightarrow> nat \<Rightarrow> financial_goal list" where
  "q_goals d user_id = filter (\<lambda>g. g_user_id g = user_id) (financial_goals d)"

text \<open>
  \<open>SELECT to_char(expense_date, 'DY') as day, SUM(amount) as total FROM expenses
  WHERE user_id = %s AND expense_date >= current_date - interval '6 days'
  GROUP BY expense_date ORDER BY expense_date\<close>.
  The filter has a lower bound only. A group is never empty, so its sum is never NULL.
\<close>

definition q_weekly :: "db \<Rightarrow> nat \<Rightarrow> date \<Rightarrow> (string \<times> rat) list" where
  "q_weekly d user_id today =
     map (\<lambda>(day, es). (to_char_DY day, sum_list (map e_amount es)))
       (order_by fst
          (sql_group_by e_expense_date
             (filter (\<lambda>e. e_user_id e = user_id \<and> today - 6 \<le> e_expense_date e) (expenses d))))"

text \<open>
  \<open>SELECT category, SUM(amount) as total FROM expenses WHERE user_id = %s AND (this month)
  GROUP BY category\<close>, as the alert and the report read it, and with
  \<open>ORDER BY total DESC\<close>, as the pie chart reads it.
\<close>

definition q_spent_by_category :: "db \<Rightarrow> nat \<Rightarrow> date \<Rightarrow> (string \<times> rat) list" where
  "q_spent_by_category d user_id today =
     map (\<lambda>(c, es). (c, sum_list (map e_amount es)))
       (sql_group_by e_category (month_expenses d user_id today))"

definition q_category_totals :: "db \<Rightarrow> nat \<Rightarrow> date \<Rightarrow> (string \<times> rat) list" where
  "q_category_totals d user_id today = order_by_desc snd (q_spent_by_category d user_id today)"

text \<open>\<open>SELECT * FROM expenses WHERE user_id = %s ORDER BY expense_date DESC, id DESC LIMIT 5\<close>\<close>

definition q_recent_expenses :: "db \<Rightarrow> nat \<Rightarrow> expense_row list" where
  "q_recent_expenses d user_id =
     take 5 (order_by_desc (\<lambda>e. (e_expense_date e, e_id e))
       (filter (\<lambda>e. e_user_id e = user_id) (expenses d)))"

definition q_category_budgets :: "db \<Rightarrow> nat \<Rightarrow> category_budget list" where
  "q_category_budgets d user_id = filter (\<lambda>r. cb_user_id r = user_id) (category_budgets d)"

text \<open>
  The values the handler computes and hands to the template. \<open>budget_used_percent\<close> is
  the outcome of its expression: the value, or the exception the arithmetic raises (which
  the handler would then raise).
\<close>

record 'f dashboard_ctx =
  monthly_income :: rat
  total_spent_this_month :: rat
  net_balance :: rat
  budget_used_percent :: "arith_error + rat"
  goals :: "financial_goal list"
  recent_expenses_list :: "expense_row list"
  overspent_categories :: "string list"
  weekly_expenses_data :: "(string \<times> 'f) list"
  expense_by_category :: "(string \<times> 'f) list"

text \<open>
  \<open>to_float\<close> is Python's \<open>float()\<close> on a \<open>Decimal\<close>: the nearest binary
  floating-point number. It is a parameter: the handler applies it entry by entry where
  it builds chart data, and never computes with the result.
\<close>

definition dashboard_data :: "(rat \<Rightarrow> 'f) \<Rightarrow> db \<Rightarrow> nat \<Rightarrow> date \<Rightarrow> 'f dashboard_ctx" where
  "dashboard_data to_float d user_id today =
     (let total_spent = or_zero (q_total_spent d user_id today);
          income_row = fetchone (q_income d user_id);
          income = (case income_row of Some r \<Rightarrow> inc_monthly_income r | None \<Rightarrow> 0);
          budget_row = fetchone (q_budget d user_id);
          total_budget = (case budget_row of Some r \<Rightarrow> b_total_monthly_budget r | None \<Rightarrow> 0);
          budgeted_amounts =
            py_dict (map (\<lambda>r. (cb_category_name r, cb_amount r)) (q_category_budgets d user_id))
      in \<lparr> monthly_income = income,
           total_spent_this_month = total_spent,
           net_balance = income - total_spent,
           budget_used_percent =
             (if total_budget > 0
              then (case decimal_div total_spent total_budget of
                      Inl e \<Rightarrow> Inl e
                    | Inr q \<Rightarrow> Inr (decimal_mul q 100))
              else Inr 0),
           goals = q_goals d user_id,
           recent_expenses_list = q_recent_expenses d user_id,
           overspent_categories =
             (if budgeted_amounts \<noteq> []
              then map fst
                (filter (\<lambda>(category, spent).
                     (case map_of budgeted_amounts category of
                        None \<Rightarrow> False
                      | Some budgeted \<Rightarrow> spent > budgeted))
                   (q_spent_by_category d user_id today))
              else []),
           weekly_expenses_data =
             py_dict (map (\<lambda>(day, total). (upper (strip day), to_float total))
               (q_weekly d user_id today)),
           expense_by_category =
             py_dict (map (\<lambda>(category, total). (category, to_float total))
               (q_category_totals d user_id today)) \<rparr>)"

section \<open>Comprehensive report\<close>

text \<open>The queries of \<open>comprehensive_report_api\<close> that the dashboard does not share.\<close>

definition q_other_incomes :: "db \<Rightarrow> nat \<Rightarrow> other_income list" where
  "q_other_incomes d user_id = filter (\<lambda>r. oi_user_id r = user_id) (other_incomes d)"

text \<open>
  \<open>SELECT to_char(expense_date, 'YYYY-MM') as month, SUM(amount) as total
  FROM expenses WHERE user_id = %s GROUP BY month ORDER BY month DESC LIMIT 6\<close>.
  The key is text, and the order is the order of text.
\<close>

definition q_expenses_by_month :: "db \<Rightarrow> nat \<Rightarrow> (string \<times> rat) list" where
  "q_expenses_by_month d user_id =
     take 6 (order_by_desc fst
       (map (\<lambda>(month, es). (month, sum_list (map e_amount es)))
         (sql_group_by (\<lambda>e. to_char_YYYY_MM (e_expense_date e))
            (filter (\<lambda>e. e_user_id e = user_id) (expenses d)))))"

definition q_investments_by_type :: "db \<Rightarrow> nat \<Rightarrow> (string \<times> rat) list" where
  "q_investments_by_type d user_id =
     map (\<lambda>(ty, rs). (ty, sum_list (map inv_amount_invested rs)))
       (sql_group_by inv_investment_type (filter (\<lambda>r. inv_user_id r = user_id) (investments d)))"

definition q_total_assets :: "db \<Rightarrow> nat \<Rightarrow> rat option" where
  "q_total_assets d user_id = sql_sum (map a_value (filter (\<lambda>r. a_user_id r = user_id) (assets d)))"

definition q_total_liabilities :: "db \<Rightarrow> nat \<Rightarrow> rat option" where
  "q_total_liabilities d user_id =
     sql_sum (map l_amount_owed (filter (\<lambda>r. l_user_id r = user_id) (liabilities d)))"

text \<open>\<open>sorted(list(set(a) | set(b)))\<close>\<close>

definition sorted_union :: "string list \<Rightarrow> string list \<Rightarrow> string list" where
  "sorted_union a b = sorted_list_of_set (set a \<union> set b)"

record 'f budget_vs_actual_t =
  bva_labels :: "string list"
  bva_budgeted :: "'f list"
  bva_actual :: "'f list"

record 'f assets_vs_liabilities_t =
  avl_assets :: 'f
  avl_liabilities :: 'f

record 'f summary_line_graph_t =
  slg_labels :: "string list"
  slg_expenses :: "'f list"
  slg_income :: "'f list"

record 'f report =
  income_by_source :: "(string \<times> 'f) list"
  expenses_by_month :: "(string \<times> 'f) list"
  budget_vs_actual :: "'f budget_vs_actual_t"
  investments_by_type :: "(string \<times> 'f) list"
  assets_vs_liabilities :: "'f assets_vs_liabilities_t"
  summary_line_graph :: "'f summary_line_graph_t"

text \<open>
  The body of \<open>comprehensive_report_api\<close> between opening and closing the connection.
  The defaults written \<open>0\<close> in the source are the zero of the number type.
\<close>

definition comprehensive_report :: "(rat \<Rightarrow> 'f::zero) \<Rightarrow> db \<Rightarrow> nat \<Rightarrow> date \<Rightarrow> 'f report" where
  "comprehensive_report to_float d user_id today =
     (let main_income = fetchone (q_income d user_id);
          income_sources =
            foldl (\<lambda>acc item. AList.update (oi_source_name item) (to_float (oi_amount item)) acc)
              [(''Salary / Main'',
                (case main_income of Some r \<Rightarrow> to_float (inc_monthly_income r) | None \<Rightarrow> 0))]
              (q_other_incomes d user_id);
          by_month =
            py_dict (map (\<lambda>(month, total). (month, to_float total))
              (rev (q_expenses_by_month d user_id)));
          actual_spending =
            py_dict (map (\<lambda>(category, total_spent). (category, to_float total_spent))
              (q_spent_by_category d user_id today));
          budgeted_amounts =
            py_dict (map (\<lambda>r. (cb_category_name r, to_float (cb_amount r)))
              (q_category_budgets d user_id));
          all_budget_cats = sorted_union (dict_keys actual_spending) (dict_keys budgeted_amounts)
      in \<lparr> income_by_source = income_sources,
           expenses_by_month = by_month,
           budget_vs_actual =
             \<lparr> bva_labels = all_budget_cats,
               bva_budgeted = map (\<lambda>cat. dict_get budgeted_amounts cat 0) all_budget_cats,
               bva_actual = map (\<lambda>cat. dict_get actual_spending cat 0) all_budget_cats \<rparr>,
           investments_by_type =
             py_dict (map (\<lambda>(ty, total). (ty, to_float total)) (q_investments_by_type d user_id)),
           assets_vs_liabilities =
             \<lparr> avl_assets = to_float (or_zero (q_total_assets d user_id)),
               avl_liabilities = to_float (or_zero (q_total_liabilities d user_id)) \<rparr>,
           summary_line_graph =
             \<lparr> slg_labels = dict_keys by_month,
               slg_expenses = dict_values by_month,
               slg_income =
                 replicate (length by_month) (dict_get income_sources ''Salary / Main'' 0) \<rparr> \<rparr>)"

section \<open>Requests, connections and transactions\<close>

subsection \<open>More Python string methods\<close>

definition startswith :: "string \<Rightarrow> string \<Rightarrow> bool" where
  "startswith s p = (take (length p) s = p)"

text \<open>
  \<open>s.replace(old, new)\<close> for a non-empty \<open>old\<close>: every occurrence, left to right, without
  overlap. The counter is the number of characters of a matched occurrence still to skip.
\<close>

fun replace_aux :: "string \<Rightarrow> string \<Rightarrow> nat \<Rightarrow> string \<Rightarrow> string" where
  "replace_aux old new k [] = []"
| "replace_aux old new (Suc k) (c # cs) = replace_aux old new k cs"
| "replace_aux old new 0 (c # cs) =
     (if old \<noteq> [] \<and> startswith (c # cs) old
      then new @ replace_aux old new (length old - 1) cs
      else c # replace_aux old new 0 cs)"

definition replace :: "string \<Rightarrow> string \<Rightarrow> string \<Rightarrow> string" where
  "replace s old new = replace_aux old new 0 s"

text \<open>
  \<open>s.title()\<close>: a letter that follows a letter is lower-cased, any other letter is
  upper-cased. The letters are the ASCII letters.
\<close>

fun title_aux :: "bool \<Rightarrow> string \<Rightarrow> string" where
  "title_aux prev [] = []"
| "title_aux prev (c # cs) =
     (if is_lower c then (if prev then c else to_upper c) # title_aux True cs
      else if is_upper c then (if prev then to_lower c else c) # title_aux True cs
      else c # title_aux False cs)"

definition title :: "string \<Rightarrow> string" where
  "title s = title_aux False s"

subsection \<open>The request\<close>

text \<open>
  The form and the query string are multi-dictionaries: lists of pairs in the order
  received. \<open>files\<close> maps a field name to the uploaded file's name.
\<close>

record request =
  is_post :: bool
  form :: "(string \<times> string) list"
  args :: "(string \<times> string) list"
  files :: "(string \<times> string) list"

datatype exn =
    BadRequestKeyError string
  | KeyError string
  | DataError string
  | NotNullViolation string
  | UniqueViolation string
  | InterfaceError

text \<open>\<open>d.get(key)\<close>, \<open>d.getlist(key)\<close> and \<open>d.items()\<close> (each key once, with its first value).\<close>

definition md_get :: "(string \<times> string) list \<Rightarrow> string \<Rightarrow> string option" where
  "md_get d k = map_of d k"

definition md_getlist :: "(string \<times> string) list \<Rightarrow> string \<Rightarrow> string list" where
  "md_getlist d k = map snd (filter (\<lambda>p. fst p = k) d)"

fun md_items_aux :: "string list \<Rightarrow> (string \<times> string) list \<Rightarrow> (string \<times> string) list" where
  "md_items_aux seen [] = []"
| "md_items_aux seen ((k, v) # r) =
     (if k \<in> set seen then md_items_aux seen r else (k, v) # md_items_aux (k # seen) r)"

definition md_items :: "(string \<times> string) list \<Rightarrow> (string \<times> string) list" where
  "md_items d = md_items_aux [] d"

subsection \<open>The world a handler runs in\<close>

text \<open>
  \<open>store\<close> is the committed database. A connection has a handle and the database as its
  open transaction sees it: the driver starts a transaction with the first statement and
  \<open>autocommit\<close> is never set, so nothing a connection writes reaches \<open>store\<close> before its
  \<open>commit()\<close>. Sequences are outside transactions. Requests are handled one at a time.
\<close>

record sequences =
  users_id_seq :: nat
  expenses_id_seq :: nat
  investments_id_seq :: nat
  assets_id_seq :: nat
  liabilities_id_seq :: nat
  financial_goals_id_seq :: nat

record world =
  store :: db
  seqs :: sequences
  conns :: "(nat \<times> db) list"
  session_user_id :: "nat option"
  flashes :: "(string \<times> string) list"
  current_date :: date

type_synonym 'a handler = "world \<Rightarrow> (exn + 'a) \<times> world"

definition ret :: "'a \<Rightarrow> 'a handler" where
  "ret x w = (Inr x, w)"

definition raise :: "exn \<Rightarrow> 'a handler" where
  "raise e w = (Inl e, w)"

definition bind :: "'a handler \<Rightarrow> ('a \<Rightarrow> 'b handler) \<Rightarrow> 'b handler" where
  "bind m f w = (case m w of (Inl e, w') \<Rightarrow> (Inl e, w') | (Inr x, w') \<Rightarrow> f x w')"

fun for_each :: "'a list \<Rightarrow> ('a \<Rightarrow> unit handler) \<Rightarrow> unit handler" where
  "for_each [] f = ret ()"
| "for_each (x # xs) f = bind (f x) (\<lambda>_. for_each xs f)"

text \<open>\<open>request.form[key]\<close> raises when the key is missing.\<close>

definition form_item :: "request \<Rightarrow> string \<Rightarrow> string handler" where
  "form_item req k = (case md_get (form req) k of None \<Rightarrow> raise (BadRequestKeyError k) | Some v \<Rightarrow> ret v)"

definition flash :: "string \<Rightarrow> string \<Rightarrow> unit handler" where
  "flash msg category w = (Inr (), w\<lparr> flashes := flashes w @ [(msg, category)] \<rparr>)"

definition set_session_user :: "nat \<Rightarrow> unit handler" where
  "set_session_user u w = (Inr (), w\<lparr> session_user_id := Some u \<rparr>)"

definition fresh :: "(nat \<times> db) list \<Rightarrow> nat" where
  "fresh cs = Suc (fold max (map fst cs) 0)"

definition get_db_connection :: "nat handler" where
  "get_db_connection w =
     (let c = fresh (conns w) in (Inr c, w\<lparr> conns := (c, store w) # conns w \<rparr>))"

definition cursor :: "nat \<Rightarrow> nat handler" where
  "cursor conn = ret conn"

text \<open>\<open>cur.execute\<close> of a statement that writes, and of a query together with its fetch.\<close>

definition cur_execute :: "nat \<Rightarrow> (db \<Rightarrow> exn + db) \<Rightarrow> unit handler" where
  "cur_execute cur stmt w =
     (case map_of (conns w) cur of
        None \<Rightarrow> (Inl InterfaceError, w)
      | Some d \<Rightarrow>
          (case stmt d of
             Inl e \<Rightarrow> (Inl e, w)
           | Inr d' \<Rightarrow> (Inr (), w\<lparr> conns := AList.update cur d' (conns w) \<rparr>)))"

definition cur_fetch :: "nat \<Rightarrow> (db \<Rightarrow> 'a) \<Rightarrow> 'a handler" where
  "cur_fetch cur q w =
     (case map_of (conns w) cur of
        None \<Rightarrow> (Inl InterfaceError, w)
      | Some d \<Rightarrow> (Inr (q d), w))"

definition cur_close :: "nat \<Rightarrow> unit handler" where
  "cur_close cur = ret ()"

definition conn_commit :: "nat \<Rightarrow> unit handler" where
  "conn_commit conn w =
     (case map_of (conns w) conn of
        None \<Rightarrow> (Inl InterfaceError, w)
      | Some d \<Rightarrow> (Inr (), w\<lparr> store := d \<rparr>))"

text \<open>Closing discards what the connection has not committed.\<close>

definition conn_close :: "nat \<Rightarrow> unit handler" where
  "conn_close conn w = (Inr (), w\<lparr> conns := filter (\<lambda>p. fst p \<noteq> conn) (conns w) \<rparr>)"

subsection \<open>Statements that write\<close>

text \<open>
  Parameters arrive as text and the data store converts them to the column's type. The
  conversions are the data store's, not the application's: they are parameters of the
  model, and a value they reject makes the statement raise.
\<close>

record pg_input =
  numeric_in :: "string \<Rightarrow> rat option"
  date_in :: "string \<Rightarrow> date option"
  integer_in :: "string \<Rightarrow> int option"

definition to_numeric :: "pg_input \<Rightarrow> string \<Rightarrow> exn + rat" where
  "to_numeric pg s = (case numeric_in pg s of None \<Rightarrow> Inl (DataError s) | Some v \<Rightarrow> Inr v)"

definition to_date :: "pg_input \<Rightarrow> string \<Rightarrow> exn + date" where
  "to_date pg s = (case date_in pg s of None \<Rightarrow> Inl (DataError s) | Some v \<Rightarrow> Inr v)"

text \<open>
  \<open>INSERT INTO incomes ... ON CONFLICT (user_id) DO UPDATE SET monthly_income = ...,
  currency = ...\<close>
\<close>

definition upsert_income :: "pg_input \<Rightarrow> nat \<Rightarrow> string \<Rightarrow> string \<Rightarrow> db \<Rightarrow> exn + db" where
  "upsert_income pg user_id amount_text currency d =
     (case to_numeric pg amount_text of
        Inl e \<Rightarrow> Inl e
      | Inr v \<Rightarrow>
          Inr (d\<lparr> incomes :=
            (if \<exists>r \<in> set (incomes d). inc_user_id r = user_id
             then map (\<lambda>r. if inc_user_id r = user_id
                             then r\<lparr> inc_monthly_income := v, inc_currency := currency \<rparr> else r)
                    (incomes d)
             else incomes d @ [\<lparr> inc_user_id = user_id, inc_monthly_income = v,
                                 inc_currency = currency \<rparr>]) \<rparr>))"

definition delete_other_incomes :: "nat \<Rightarrow> db \<Rightarrow> exn + db" where
  "delete_other_incomes user_id d =
     Inr (d\<lparr> other_incomes := filter (\<lambda>r. oi_user_id r \<noteq> user_id) (other_incomes d) \<rparr>)"

definition insert_other_income :: "pg_input \<Rightarrow> nat \<Rightarrow> string \<Rightarrow> string \<Rightarrow> db \<Rightarrow> exn + db" where
  "insert_other_income pg user_id name amount_text d =
     (case to_numeric pg amount_text of
        Inl e \<Rightarrow> Inl e
      | Inr v \<Rightarrow>
          Inr (d\<lparr> other_incomes := other_incomes d @
            [\<lparr> oi_user_id = user_id, oi_source_name = name, oi_amount = v \<rparr>] \<rparr>))"

definition upsert_budget :: "pg_input \<Rightarrow> nat \<Rightarrow> string \<Rightarrow> db \<Rightarrow> exn + db" where
  "upsert_budget pg user_id amount_text d =
     (case to_numeric pg amount_text of
        Inl e \<Rightarrow> Inl e
      | Inr v \<Rightarrow>
          Inr (d\<lparr> budgets :=
            (if \<exists>r \<in> set (budgets d). b_user_id r = user_id
             then map (\<lambda>r. if b_user_id r = user_id then r\<lparr> b_total_monthly_budget := v \<rparr> else r)
                    (budgets d)
             else budgets d @ [\<lparr> b_user_id = user_id, b_total_monthly_budget = v \<rparr>]) \<rparr>))"

definition delete_category_budgets :: "nat \<Rightarrow> db \<Rightarrow> exn + db" where
  "delete_category_budgets user_id d =
     Inr (d\<lparr> category_budgets := filter (\<lambda>r. cb_user_id r \<noteq> user_id) (category_budgets d) \<rparr>)"

text \<open>
  Modelled from the spec: the declaration of \<open>category_budgets\<close> is not among the sources;
  the spec's data model has a category budget unique per category name, so a second row
  of a user with the same name is rejected.
\<close>

definition insert_category_budget :: "pg_input \<Rightarrow> nat \<Rightarrow> string \<Rightarrow> string \<Rightarrow> db \<Rightarrow> exn + db" where
  "insert_category_budget pg user_id name amount_text d =
     (case to_numeric pg amount_text of
        Inl e \<Rightarrow> Inl e
      | Inr v \<Rightarrow>
          if \<exists>r \<in> set (category_budgets d). cb_user_id r = user_id \<and> cb_category_name r = name
          then Inl (UniqueViolation name)
          else Inr (d\<lparr> category_budgets := category_budgets d @
            [\<lparr> cb_user_id = user_id, cb_category_name = name, cb_amount = v \<rparr>] \<rparr>))"

definition insert_user :: "nat \<Rightarrow> string \<Rightarrow> string \<Rightarrow> string \<Rightarrow> db \<Rightarrow> exn + db" where
  "insert_user new_id full_name email password_hash d =
     Inr (d\<lparr> users := users d @
       [\<lparr> u_id = new_id, u_full_name = full_name, u_email = email,
          u_password_hash = password_hash, u_profile_picture_url = None \<rparr>] \<rparr>)"

text \<open>\<open>profile_picture_url VARCHAR(255)\<close> (init_db.py).\<close>

definition update_profile_picture :: "string \<Rightarrow> nat \<Rightarrow> db \<Rightarrow> exn + db" where
  "update_profile_picture db_path user_id d =
     (if length db_path > 255 then Inl (DataError db_path)
      else Inr (d\<lparr> users := map (\<lambda>u. if u_id u = user_id
                                       then u\<lparr> u_profile_picture_url := Some db_path \<rparr> else u)
                                (users d) \<rparr>))"

text \<open>
  \<open>financial_goals\<close> (init_db.py): \<open>goal_name VARCHAR(100) NOT NULL\<close>,
  \<open>target_amount NUMERIC(15, 2) NOT NULL\<close>, \<open>goal_type VARCHAR(50) NOT NULL\<close>. A numeric
  value is rounded to two decimals, half away from zero, and must stay below \<open>10^13\<close>.
\<close>

definition numeric_15_2 :: "rat \<Rightarrow> rat option" where
  "numeric_15_2 v =
     (let r = sgn v * of_int \<lfloor>\<bar>v\<bar> * 100 + 1 / 2\<rfloor> / 100
      in if \<bar>r\<bar> \<ge> 10 ^ 13 then None else Some r)"

definition insert_goal ::
  "pg_input \<Rightarrow> nat \<Rightarrow> nat \<Rightarrow> string option \<Rightarrow> string option \<Rightarrow> string option \<Rightarrow> db \<Rightarrow> exn + db" where
  "insert_goal pg new_id user_id goal_name target_amount goal_type d =
     (case goal_name of
        None \<Rightarrow> Inl (NotNullViolation ''goal_name'')
      | Some name \<Rightarrow>
     (case target_amount of
        None \<Rightarrow> Inl (NotNullViolation ''target_amount'')
      | Some amount_text \<Rightarrow>
     (case goal_type of
        None \<Rightarrow> Inl (NotNullViolation ''goal_type'')
      | Some ty \<Rightarrow>
     (case to_numeric pg amount_text of
        Inl e \<Rightarrow> Inl e
      | Inr v \<Rightarrow>
     (case numeric_15_2 v of
        None \<Rightarrow> Inl (DataError amount_text)
      | Some amount \<Rightarrow>
          if length name > 100 then Inl (DataError name)
          else if length ty > 50 then Inl (DataError ty)
          else Inr (d\<lparr> financial_goals := financial_goals d @
            [\<lparr> g_id = new_id, g_user_id = user_id, g_goal_name = name,
               g_target_amount = amount, g_goal_type = ty \<rparr>] \<rparr>))))))"

text \<open>\<open>DELETE FROM financial_goals WHERE id = %s AND user_id = %s\<close>\<close>

definition delete_goal_stmt :: "nat \<Rightarrow> nat \<Rightarrow> db \<Rightarrow> exn + db" where
  "delete_goal_stmt goal_id user_id d =
     Inr (d\<lparr> financial_goals :=
       filter (\<lambda>g. \<not> (g_id g = goal_id \<and> g_user_id g = user_id)) (financial_goals d) \<rparr>)"

definition insert_expense ::
  "pg_input \<Rightarrow> nat \<Rightarrow> nat \<Rightarrow> string \<Rightarrow> string \<Rightarrow> string \<Rightarrow> string \<Rightarrow> string \<Rightarrow> string \<Rightarrow> db
     \<Rightarrow> exn + db" where
  "insert_expense pg new_id user_id ttl amount_text category date_text description payment d =
     (case to_numeric pg amount_text of
        Inl e \<Rightarrow> Inl e
      | Inr v \<Rightarrow>
     (case to_date pg date_text of
        Inl e \<Rightarrow> Inl e
      | Inr dt \<Rightarrow>
          Inr (d\<lparr> expenses := expenses d @
            [\<lparr> e_id = new_id, e_user_id = user_id, e_title = ttl, e_amount = v,
               e_category = category, e_expense_date = dt, e_description = description,
               e_payment_method = payment \<rparr>] \<rparr>)))"

definition insert_investment ::
  "pg_input \<Rightarrow> nat \<Rightarrow> nat \<Rightarrow> string \<Rightarrow> string \<Rightarrow> string \<Rightarrow> string \<Rightarrow> db \<Rightarrow> exn + db" where
  "insert_investment pg new_id user_id name amount_text ty date_text d =
     (case to_numeric pg amount_text of
        Inl e \<Rightarrow> Inl e
      | Inr v \<Rightarrow>
     (case to_date pg date_text of
        Inl e \<Rightarrow> Inl e
      | Inr dt \<Rightarrow>
          Inr (d\<lparr> investments := investments d @
            [\<lparr> inv_id = new_id, inv_user_id = user_id, inv_investment_name = name,
               inv_amount_invested = v, inv_investment_type = ty,
               inv_investment_date = dt \<rparr>] \<rparr>)))"

text \<open>
  \<open>DELETE FROM t WHERE id = %s AND user_id = %s\<close> with the id as the form gave it: a
  missing field is NULL and matches no row; text that is no integer makes the statement
  raise.
\<close>

definition id_matches :: "pg_input \<Rightarrow> string option \<Rightarrow> exn + (nat \<Rightarrow> bool)" where
  "id_matches pg id_text =
     (case id_text of
        None \<Rightarrow> Inr (\<lambda>_. False)
      | Some s \<Rightarrow>
          (case integer_in pg s of
             None \<Rightarrow> Inl (DataError s)
           | Some i \<Rightarrow> Inr (\<lambda>k. int k = i)))"

definition delete_investment :: "pg_input \<Rightarrow> string option \<Rightarrow> nat \<Rightarrow> db \<Rightarrow> exn + db" where
  "delete_investment pg id_text user_id d =
     (case id_matches pg id_text of
        Inl e \<Rightarrow> Inl e
      | Inr hit \<Rightarrow>
          Inr (d\<lparr> investments :=
            filter (\<lambda>r. \<not> (hit (inv_id r) \<and> inv_user_id r = user_id)) (investments d) \<rparr>))"

definition insert_asset :: "pg_input \<Rightarrow> nat \<Rightarrow> nat \<Rightarrow> string \<Rightarrow> string \<Rightarrow> db \<Rightarrow> exn + db" where
  "insert_asset pg new_id user_id name value_text d =
     (case to_numeric pg value_text of
        Inl e \<Rightarrow> Inl e
      | Inr v \<Rightarrow>
          Inr (d\<lparr> assets := assets d @
            [\<lparr> a_id = new_id, a_user_id = user_id, a_asset_name = name, a_value = v \<rparr>] \<rparr>))"

definition insert_liability :: "pg_input \<Rightarrow> nat \<Rightarrow> nat \<Rightarrow> string \<Rightarrow> string \<Rightarrow> db \<Rightarrow> exn + db" where
  "insert_liability pg new_id user_id name amount_text d =
     (case to_numeric pg amount_text of
        Inl e \<Rightarrow> Inl e
      | Inr v \<Rightarrow>
          Inr (d\<lparr> liabilities := liabilities d @
            [\<lparr> l_id = new_id, l_user_id = user_id, l_liability_name = name,
               l_amount_owed = v \<rparr>] \<rparr>))"

definition delete_asset :: "pg_input \<Rightarrow> string option \<Rightarrow> nat \<Rightarrow> db \<Rightarrow> exn + db" where
  "delete_asset pg id_text user_id d =
     (case id_matches pg id_text of
        Inl e \<Rightarrow> Inl e
      | Inr hit \<Rightarrow>
          Inr (d\<lparr> assets := filter (\<lambda>r. \<not> (hit (a_id r) \<and> a_user_id r = user_id)) (assets d) \<rparr>))"

definition delete_liability :: "pg_input \<Rightarrow> string option \<Rightarrow> nat \<Rightarrow> db \<Rightarrow> exn + db" where
  "delete_liability pg id_text user_id d =
     (case id_matches pg id_text of
        Inl e \<Rightarrow> Inl e
      | Inr hit \<Rightarrow>
          Inr (d\<lparr> liabilities :=
            filter (\<lambda>r. \<not> (hit (l_id r) \<and> l_user_id r = user_id)) (liabilities d) \<rparr>))"

text \<open>A serial column takes the next value of its sequence.\<close>

definition nextval ::
  "(sequences \<Rightarrow> nat) \<Rightarrow> ((nat \<Rightarrow> nat) \<Rightarrow> sequences \<Rightarrow> sequences) \<Rightarrow> nat handler" where
  "nextval get upd w = (Inr (Suc (get (seqs w))), w\<lparr> seqs := upd Suc (seqs w) \<rparr>)"

section \<open>Reading decimal text\<close>

text \<open>
  The number a string of decimal digits stands for, most significant digit first. The
  application does not run these; they state what the rendered year-month keys mean.
\<close>

definition is_digit :: "char \<Rightarrow> bool" where
  "is_digit c = (c \<in> set ''0123456789'')"

definition dval :: "char \<Rightarrow> nat" where
  "dval c = of_char c - 48"

fun num_be :: "string \<Rightarrow> nat" where
  "num_be [] = 0"
| "num_be (c # cs) = dval c * 10 ^ length cs + num_be cs"

section \<open>Example data\<close>

definition empty_db :: db where
  "empty_db = \<lparr> users = [], incomes = [], other_incomes = [], budgets = [],
     category_budgets = [], expenses = [], investments = [], assets = [], liabilities = [],
     financial_goals = [] \<rparr>"

definition ex_expense :: "nat \<Rightarrow> nat \<Rightarrow> rat \<Rightarrow> string \<Rightarrow> date \<Rightarrow> expense_row" where
  "ex_expense i u a c dt = \<lparr> e_id = i, e_user_id = u, e_title = ''item'', e_amount = a,
     e_category = c, e_expense_date = dt, e_description = [], e_payment_method = ''Cash'' \<rparr>"

text \<open>User 1 saved a total budget of -50 and spent 10 on 2024-03-05.\<close>

definition neg_budget_db :: db where
  "neg_budget_db = empty_db
     \<lparr> budgets := [\<lparr> b_user_id = 1, b_total_monthly_budget = - 50 \<rparr>],
       expenses := [ex_expense 1 1 10 ''Food'' (make_date 2024 3 5)] \<rparr>"

text \<open>User 1 saved a total budget of 30 and spent 10 on 2024-03-05.\<close>

definition third_budget_db :: db where
  "third_budget_db = empty_db
     \<lparr> budgets := [\<lparr> b_user_id = 1, b_total_monthly_budget = 30 \<rparr>],
       expenses := [ex_expense 1 1 10 ''Food'' (make_date 2024 3 5)] \<rparr>"

text \<open>User 1 saved a total budget of 0 and spent 10 on 2024-03-05.\<close>

definition zero_budget_db :: db where
  "zero_budget_db = empty_db
     \<lparr> budgets := [\<lparr> b_user_id = 1, b_total_monthly_budget = 0 \<rparr>],
       expenses := [ex_expense 1 1 10 ''Food'' (make_date 2024 3 5)] \<rparr>"

text \<open>User 1 spent 0.10 on food and 0.20 on fuel in March 2024.\<close>

definition cents_db :: db where
  "cents_db = empty_db
     \<lparr> expenses := [ex_expense 1 1 (1 / 10) ''Food'' (make_date 2024 3 5),
                     ex_expense 2 1 (2 / 10) ''Fuel'' (make_date 2024 3 6)] \<rparr>"

text \<open>
  User 1 spent 10 on Wednesday 2024-03-13 and entered an expense of 5 dated
  Wednesday 2024-03-20; the current date of the example is 2024-03-19.
\<close>

definition future_db :: db where
  "future_db = empty_db
     \<lparr> expenses := [ex_expense 1 1 10 ''Food'' (make_date 2024 3 13),
                     ex_expense 2 1 5 ''Food'' (make_date 2024 3 20)] \<rparr>"

text \<open>User 1 spent 10 and 4 on Wednesday 2024-03-13, 7 on Monday 2024-03-18 and 3 a month before.\<close>

definition week_db :: db where
  "week_db = empty_db
     \<lparr> expenses := [ex_expense 1 1 10 ''Food'' (make_date 2024 3 13),
                     ex_expense 2 1 7 ''Rent'' (make_date 2024 3 18),
                     ex_expense 3 1 4 ''Fuel'' (make_date 2024 3 13),
                     ex_expense 4 1 3 ''Food'' (make_date 2024 2 14),
                     ex_expense 5 2 9 ''Food'' (make_date 2024 3 13)] \<rparr>"

text \<open>
  User 1 has a monthly income of 1000, an other income that is itself named
  \<open>Salary / Main\<close>, and expenses in two months.
\<close>

definition salary_clash_db :: db where
  "salary_clash_db = empty_db
     \<lparr> incomes := [\<lparr> inc_user_id = 1, inc_monthly_income = 1000, inc_currency = ''$'' \<rparr>],
       other_incomes := [\<lparr> oi_user_id = 1, oi_source_name = ''Salary / Main'', oi_amount = 50 \<rparr>],
       expenses := [ex_expense 1 1 10 ''Food'' (make_date 2024 3 13)] \<rparr>"

text \<open>User 1 has an income, a rental income, two category budgets and the expenses of \<open>week_db\<close>.\<close>

definition report_db :: db where
  "report_db = week_db
     \<lparr> incomes := [\<lparr> inc_user_id = 1, inc_monthly_income = 1000, inc_currency = ''$'' \<rparr>],
       other_incomes := [\<lparr> oi_user_id = 1, oi_source_name = ''Rent'', oi_amount = 50 \<rparr>],
       category_budgets := [\<lparr> cb_user_id = 1, cb_category_name = ''Travel'', cb_amount = 40 \<rparr>,
                            \<lparr> cb_user_id = 1, cb_category_name = ''Food'', cb_amount = 25 \<rparr>] \<rparr>"

text \<open>User 1 has an expense of 5 dated 10000-01-15 and one of 7 dated 2024-01-15.\<close>

definition y10k_db :: db where
  "y10k_db = empty_db
     \<lparr> expenses := [ex_expense 1 1 5 ''Food'' (make_date 10000 1 15),
                     ex_expense 2 1 7 ''Food'' (make_date 2024 1 15)] \<rparr>"

section \<open>Properties of the dashboard figures\<close>

lemma update_fresh: "k \<notin> fst ` set d \<Longrightarrow> AList.update k v d = d @ [(k, v)]"
  by (induction d) auto

lemma foldl_update_distinct:
  "distinct (map fst (acc @ ps)) \<Longrightarrow>
   foldl (\<lambda>d (k, v). AList.update k v d) acc ps = acc @ ps"
proof (induction ps arbitrary: acc)
  case Nil
  then show ?case by simp
next
  case (Cons p ps)
  obtain k v where p: "p = (k, v)" by (cases p)
  from Cons.prems have fresh: "k \<notin> fst ` set acc" by (auto simp: p)
  from Cons.prems have "distinct (map fst ((acc @ [(k, v)]) @ ps))" by (simp add: p)
  from Cons.IH[OF this] show ?case by (simp add: p update_fresh[OF fresh])
qed

lemma py_dict_distinct: "distinct (map fst ps) \<Longrightarrow> py_dict ps = ps"
  using foldl_update_distinct[of "[]" ps] by (simp add: py_dict_def)

lemma or_zero_sql_sum: "or_zero (sql_sum xs) = sum_list xs"
  by (simp add: or_zero_def sql_sum_def)

lemma group_sum_set:
  "finite S \<Longrightarrow> key ` set rows \<subseteq> S \<Longrightarrow>
   (\<Sum>k\<in>S. sum_list (map f (filter (\<lambda>r. key r = k) rows))) = (sum_list (map f rows) :: rat)"
proof (induction rows)
  case Nil
  then show ?case by simp
next
  case (Cons r rows)
  have "(\<Sum>k\<in>S. sum_list (map f (filter (\<lambda>r. key r = k) (r # rows))))
      = (\<Sum>k\<in>S. (if key r = k then f r else 0) + sum_list (map f (filter (\<lambda>r. key r = k) rows)))"
    by (intro sum.cong) auto
  also have "\<dots> = (\<Sum>k\<in>S. (if key r = k then f r else 0)) + sum_list (map f rows)"
    using Cons by (simp add: sum.distrib)
  also have "(\<Sum>k\<in>S. (if key r = k then f r else 0)) = f r"
    using Cons.prems by (simp add: sum.delta')
  finally show ?case by simp
qed

lemma group_by_sum:
  "sum_list (map (\<lambda>(k, rs). sum_list (map f rs)) (sql_group_by key rows)) = (sum_list (map f rows) :: rat)"
proof -
  have "sum_list (map (\<lambda>(k, rs). sum_list (map f rs)) (sql_group_by key rows))
      = sum_list (map (\<lambda>k. sum_list (map f (filter (\<lambda>r. key r = k) rows))) (remdups (map key rows)))"
    by (simp add: sql_group_by_def comp_def)
  also have "\<dots> = (\<Sum>k\<in>set (remdups (map key rows)). sum_list (map f (filter (\<lambda>r. key r = k) rows)))"
    by (rule sum_list_distinct_conv_sum_set) simp
  also have "\<dots> = sum_list (map f rows)"
    by (rule group_sum_set) auto
  finally show ?thesis .
qed

lemma group_by_keys: "map fst (sql_group_by key rows) = remdups (map key rows)"
  by (simp add: sql_group_by_def comp_def)

lemma spent_by_category_keys:
  "map fst (q_spent_by_category d u t) = remdups (map e_category (month_expenses d u t))"
  by (simp add: q_spent_by_category_def sql_group_by_def comp_def)

lemma spent_by_category_sum:
  "sum_list (map snd (q_spent_by_category d u t)) = sum_list (map e_amount (month_expenses d u t))"
proof -
  have "map snd (q_spent_by_category d u t)
      = map (\<lambda>(k, rs). sum_list (map e_amount rs)) (sql_group_by e_category (month_expenses d u t))"
    by (simp add: q_spent_by_category_def comp_def case_prod_unfold)
  then show ?thesis by (simp add: group_by_sum)
qed

lemma sum_list_sort_key: "sum_list (map g (sort_key k xs)) = (sum_list (map g xs) :: rat)"
proof -
  have "mset (map g (sort_key k xs)) = mset (map g xs)" by simp
  then show ?thesis by (metis sum_mset_sum_list)
qed

lemma distinct_map_sort_key: "distinct (map g (sort_key k xs)) = distinct (map g xs)"
proof -
  have "mset (map g (sort_key k xs)) = mset (map g xs)" by simp
  then show ?thesis by (rule mset_eq_imp_distinct_iff)
qed

lemma category_totals_sum:
  "sum_list (map snd (q_category_totals d u t)) = sum_list (map e_amount (month_expenses d u t))"
  by (simp add: q_category_totals_def order_by_desc_def rev_map[symmetric] sum_list_sort_key
      spent_by_category_sum)

lemma category_totals_distinct: "distinct (map fst (q_category_totals d u t))"
  by (simp add: q_category_totals_def order_by_desc_def rev_map[symmetric] distinct_map_sort_key
      spent_by_category_keys)

text \<open>
  Claim C1, as the code has it. The handler guards the division with
  \<open>total_budget > 0\<close>, so the expression never raises: no state makes it divide by zero.
  For a positive total budget the result is the \<open>Decimal\<close> value of
  \<open>spend / total_budget * 100\<close>, that is, the quotient rounded to 28 significant digits,
  times 100, rounded likewise; for a total budget that is zero or negative, and for a user
  with no budget row, it is 0. The spend is the sum of this month's amounts.
\<close>

theorem budget_used_percent_guarded:
  "budget_used_percent (dashboard_data to_float d user_id today) =
     Inr (case fetchone (q_budget d user_id) of
            None \<Rightarrow> 0
          | Some r \<Rightarrow>
              if b_total_monthly_budget r > 0
              then round_sig 10 28
                     (round_sig 10 28
                        (sum_list (map e_amount (month_expenses d user_id today))
                           / b_total_monthly_budget r) * 100)
              else 0)"
  by (simp add: dashboard_data_def Let_def q_total_spent_def or_zero_sql_sum decimal_div_def
      decimal_mul_def split: option.split)

text \<open>
  The three branches of claim C1 on examples: a budget of 30 and a spend of 10 give
  33.33333333333333333333333333 (28 digits, not the exact 100/3); a budget of 0 and a
  spend of 10 give 0, where the unguarded quotient would raise; no budget row gives 0.
\<close>

theorem budget_used_percent_guarded_examples:
  "budget_used_percent (dashboard_data (\<lambda>x. x) third_budget_db 1 (make_date 2024 3 20))
     = Inr (3333333333333333333333333333 / 10 ^ 26)
   \<and> budget_used_percent (dashboard_data (\<lambda>x. x) zero_budget_db 1 (make_date 2024 3 20)) = Inr 0
   \<and> decimal_div (total_spent_this_month (dashboard_data (\<lambda>x. x) zero_budget_db 1 (make_date 2024 3 20))) 0
       = Inl DivisionByZero
   \<and> budget_used_percent (dashboard_data (\<lambda>x. x) future_db 1 (make_date 2024 3 20)) = Inr 0"
proof -
  have a: "fetchone (q_budget third_budget_db 1) = Some \<lparr> b_user_id = 1, b_total_monthly_budget = 30 \<rparr>"
    by code_simp
  have b: "sum_list (map e_amount (month_expenses third_budget_db 1 (make_date 2024 3 20))) = 10"
    by code_simp
  have c: "round_sig 10 28 (round_sig 10 28 (1 / 3) * 100) = 3333333333333333333333333333 / 10 ^ 26"
    by code_simp
  have d: "fetchone (q_budget zero_budget_db 1) = Some \<lparr> b_user_id = 1, b_total_monthly_budget = 0 \<rparr>"
    by code_simp
  have e: "decimal_div (total_spent_this_month (dashboard_data (\<lambda>x. x) zero_budget_db 1 (make_date 2024 3 20))) 0
       = Inl DivisionByZero"
    by code_simp
  have f: "fetchone (q_budget future_db 1) = None"
    by code_simp
  show ?thesis
    using budget_used_percent_guarded[of "\<lambda>x. x" third_budget_db 1 "make_date 2024 3 20"]
      budget_used_percent_guarded[of "\<lambda>x. x" zero_budget_db 1 "make_date 2024 3 20"]
      budget_used_percent_guarded[of "\<lambda>x. x" future_db 1 "make_date 2024 3 20"]
    by (simp add: a b c d e f del: One_nat_def)
qed

text \<open>
  Claim C1 as stated fails for a negative total budget: with a budget of -50 and a spend
  of 10 the quotient formula gives -20, the handler gives 0.
\<close>

theorem budget_used_percent_negative_budget:
  "budget_used_percent (dashboard_data (\<lambda>x. x) neg_budget_db 1 (make_date 2024 3 20)) = Inr 0
   \<and> total_spent_this_month (dashboard_data (\<lambda>x. x) neg_budget_db 1 (make_date 2024 3 20)) = 10
   \<and> map b_total_monthly_budget (q_budget neg_budget_db 1) = [- 50]
   \<and> (case decimal_div 10 (- 50) of Inl e \<Rightarrow> Inl e | Inr q \<Rightarrow> Inr (decimal_mul q 100)) = Inr (- 20)"
  by code_simp

text \<open>
  Claim C2. The monthly spend total on the dashboard is the sum of the amounts of exactly
  those expenses of the user whose date has the calendar month number of the current date.
  Membership is decided by the month number alone (the year is not compared, and no window
  of days is involved).
\<close>

theorem monthly_total_by_month_number:
  "total_spent_this_month (dashboard_data to_float d user_id today) =
     sum_list (map e_amount
       (filter (\<lambda>e. e_user_id e = user_id \<and>
                     date_part_month (e_expense_date e) = date_part_month today)
          (expenses d)))"
  by (simp add: dashboard_data_def Let_def q_total_spent_def or_zero_sql_sum month_expenses_def
      in_current_month_def)

lemma category_totals_set:
  "set (q_category_totals d u t) =
     (\<lambda>c. (c, sum_list (map e_amount (filter (\<lambda>e. e_category e = c) (month_expenses d u t)))))
       ` e_category ` set (month_expenses d u t)"
  by (auto simp add: q_category_totals_def order_by_desc_def q_spent_by_category_def
      sql_group_by_def image_iff)

text \<open>
  Claim C3, as the code has it. The chart dictionary \<open>expense_by_category\<close> has exactly
  one entry per category in which the user has an expense of the current month; its value
  is \<open>float()\<close> of that category's exact total. The exact totals, before the conversion,
  add up to the monthly spend total computed under the same month filter. The statement
  does not depend on the order in which the data store returns the rows.
\<close>

theorem category_breakdown_sums_to_total:
  fixes to_float :: "rat \<Rightarrow> 'f" and d :: db and user_id :: nat and today :: date
  defines "D \<equiv> dashboard_data to_float d user_id today"
    and "rows \<equiv> month_expenses d user_id today"
  shows "distinct (dict_keys (expense_by_category D))
   \<and> set (dict_keys (expense_by_category D)) = e_category ` set rows
   \<and> (\<forall>c \<in> e_category ` set rows.
         map_of (expense_by_category D) c =
           Some (to_float (sum_list (map e_amount (filter (\<lambda>e. e_category e = c) rows)))))
   \<and> (\<Sum>c \<in> e_category ` set rows. sum_list (map e_amount (filter (\<lambda>e. e_category e = c) rows)))
       = total_spent_this_month D"
proof -
  let ?Q = "q_category_totals d user_id today"
  let ?M = "map (\<lambda>(category, total). (category, to_float total)) ?Q"
  have keys: "map fst ?M = map fst ?Q"
    by (simp add: comp_def case_prod_unfold)
  have dist: "distinct (map fst ?M)"
    by (simp only: keys category_totals_distinct)
  have "expense_by_category D = py_dict ?M"
    by (simp add: D_def dashboard_data_def Let_def)
  then have dict: "expense_by_category D = ?M"
    by (simp only: py_dict_distinct[OF dist])
  have "set (map fst (q_spent_by_category d user_id today)) = e_category ` set rows"
    by (simp only: spent_by_category_keys set_remdups set_map rows_def)
  then have kset: "set (map fst ?Q) = e_category ` set rows"
    by (simp add: q_category_totals_def order_by_desc_def)
  have total: "total_spent_this_month D = sum_list (map e_amount rows)"
    by (simp add: D_def rows_def dashboard_data_def Let_def q_total_spent_def or_zero_sql_sum)
  show ?thesis
  proof (intro conjI ballI)
    show "distinct (dict_keys (expense_by_category D))"
      using dist by (simp add: dict dict_keys_def)
    show "set (dict_keys (expense_by_category D)) = e_category ` set rows"
      using kset by (simp only: dict dict_keys_def keys)
    show "(\<Sum>c \<in> e_category ` set rows. sum_list (map e_amount (filter (\<lambda>e. e_category e = c) rows)))
       = total_spent_this_month D"
      unfolding total by (rule group_sum_set) auto
  next
    fix c assume c: "c \<in> e_category ` set rows"
    let ?v = "sum_list (map e_amount (filter (\<lambda>e. e_category e = c) rows))"
    from c have "(c, ?v) \<in> set ?Q"
      unfolding category_totals_set rows_def by blast
    then have "(c, to_float ?v) \<in> set ?M" by force
    with dist show "map_of (expense_by_category D) c = Some (to_float ?v)"
      unfolding dict by (simp only: map_of_eq_Some_iff)
  qed
qed

text \<open>
  Claim C3 on an example: with 0.10 spent on food and 0.20 on fuel, the entry for food is
  the binary floating-point number nearest to 0.1, and the monthly total is 0.30.
\<close>

theorem category_breakdown_sums_to_total_witness:
  "''Food'' \<in> e_category ` set (month_expenses cents_db 1 (make_date 2024 3 20))
   \<and> map_of (expense_by_category (dashboard_data float64 cents_db 1 (make_date 2024 3 20))) ''Food''
       = Some (3602879701896397 / 2 ^ 55)
   \<and> total_spent_this_month (dashboard_data float64 cents_db 1 (make_date 2024 3 20)) = 3 / 10"
proof -
  note T = category_breakdown_sums_to_total[of float64 cents_db 1 "make_date 2024 3 20"]
  have m: "''Food'' \<in> e_category ` set (month_expenses cents_db 1 (make_date 2024 3 20))"
    by code_simp
  have v: "float64 (sum_list (map e_amount (filter (\<lambda>e. e_category e = ''Food'')
             (month_expenses cents_db 1 (make_date 2024 3 20))))) = 3602879701896397 / 2 ^ 55"
    by code_simp
  have s: "(\<Sum>c \<in> e_category ` set (month_expenses cents_db 1 (make_date 2024 3 20)).
             sum_list (map e_amount (filter (\<lambda>e. e_category e = c)
               (month_expenses cents_db 1 (make_date 2024 3 20))))) = 3 / 10"
    by code_simp
  from T have "map_of (expense_by_category (dashboard_data float64 cents_db 1 (make_date 2024 3 20))) ''Food''
       = Some (float64 (sum_list (map e_amount (filter (\<lambda>e. e_category e = ''Food'')
             (month_expenses cents_db 1 (make_date 2024 3 20))))))"
    using m by blast
  moreover from T have "total_spent_this_month (dashboard_data float64 cents_db 1 (make_date 2024 3 20))
      = (\<Sum>c \<in> e_category ` set (month_expenses cents_db 1 (make_date 2024 3 20)).
             sum_list (map e_amount (filter (\<lambda>e. e_category e = c)
               (month_expenses cents_db 1 (make_date 2024 3 20)))))"
    by simp
  ultimately show ?thesis using m by (simp only: v s simp_thms)
qed

text \<open>
  Claim C3 as stated fails on the values of the dictionary, which are floats: in the same
  example they are 0.2 and 0.1 as floats, Python's \<open>sum\<close> of them is
  0.30000000000000004, and the monthly total is the decimal 0.30, whose float lies just
  below 0.3.
\<close>

theorem category_breakdown_float_sum:
  "expense_by_category (dashboard_data float64 cents_db 1 (make_date 2024 3 20))
     = [(''Fuel'', 3602879701896397 / 2 ^ 54), (''Food'', 3602879701896397 / 2 ^ 55)]
   \<and> py_sum (dict_values (expense_by_category (dashboard_data float64 cents_db 1 (make_date 2024 3 20))))
       = 5404319552844596 / 2 ^ 54
   \<and> total_spent_this_month (dashboard_data float64 cents_db 1 (make_date 2024 3 20)) = 3 / 10
   \<and> float64 (3 / 10) = 5404319552844595 / 2 ^ 54
   \<and> py_sum (dict_values (expense_by_category (dashboard_data float64 cents_db 1 (make_date 2024 3 20))))
       \<noteq> total_spent_this_month (dashboard_data float64 cents_db 1 (make_date 2024 3 20))
   \<and> py_sum (dict_values (expense_by_category (dashboard_data float64 cents_db 1 (make_date 2024 3 20))))
       \<noteq> float64 (total_spent_this_month (dashboard_data float64 cents_db 1 (make_date 2024 3 20)))"
  by code_simp
subsection \<open>The weekly series\<close>

lemma day_names_clean: "list_all (\<lambda>s. upper (strip s) = s) day_names"
  by code_simp

lemma day_names_distinct: "distinct day_names"
  by code_simp

lemma day_index: "nat ((d + 4) mod 7) < length day_names"
  by (simp add: day_names_def nat_less_iff)

lemma to_char_DY_clean: "upper (strip (to_char_DY d)) = to_char_DY d"
proof -
  have "to_char_DY d \<in> set day_names"
    unfolding to_char_DY_def by (rule nth_mem) (rule day_index)
  with day_names_clean show ?thesis by (simp add: list_all_iff)
qed

lemma to_char_DY_inj_week:
  assumes "t - 6 \<le> a" "a \<le> t" "t - 6 \<le> b" "b \<le> (t::int)"
    and "to_char_DY a = to_char_DY b"
  shows "a = b"
proof -
  from assms(5) have "nat ((a + 4) mod 7) = nat ((b + 4) mod 7)"
    unfolding to_char_DY_def
    using nth_eq_iff_index_eq[OF day_names_distinct day_index day_index] by blast
  then have "(a + 4) mod 7 = (b + 4) mod 7" by simp
  then have "7 dvd (a + 4) - (b + 4)" by (simp only: mod_eq_dvd_iff)
  then have "7 dvd a - b" by simp
  then obtain k where k: "a - b = 7 * k" ..
  from assms(1-4) have "- 7 < 7 * k" "7 * k < 7" unfolding k[symmetric] by linarith+
  then have "k = 0" by linarith
  with k show ?thesis by simp
qed

text \<open>
  Claim C6, as the code has it. For a user with no expense dated after the current date,
  the weekly series maps each upper-case three-letter day label to the sum of the amounts
  of the user's expenses of the trailing seven days (today included) that fall on that
  day of the week; a label with no such expense is absent. The query bounds the date from
  below only, so the theorem assumes that no expense of the user lies in the future.
\<close>

theorem weekly_series_trailing_week:
  assumes past: "\<forall>e\<in>set (expenses d). e_user_id e = user_id \<longrightarrow> e_expense_date e \<le> today"
  shows "map_of (weekly_expenses_data (dashboard_data to_float d user_id today)) label =
     (let es = filter (\<lambda>e. e_user_id e = user_id \<and> today - 6 \<le> e_expense_date e \<and>
                           e_expense_date e \<le> today \<and> to_char_DY (e_expense_date e) = label)
                 (expenses d)
      in if es = [] then None else Some (to_float (sum_list (map e_amount es))))"
proof -
  define W where "W = filter (\<lambda>e. e_user_id e = user_id \<and> today - 6 \<le> e_expense_date e) (expenses d)"
  define G where "G = sql_group_by e_expense_date W"
  define F where "F = (\<lambda>(day :: date, es :: expense_row list). (to_char_DY day, to_float (sum_list (map e_amount es))))"
  define pairs where "pairs = map F (sort_key fst G)"
  define es where "es = filter (\<lambda>e. e_user_id e = user_id \<and> today - 6 \<le> e_expense_date e \<and>
                           e_expense_date e \<le> today \<and> to_char_DY (e_expense_date e) = label) (expenses d)"
  have win: "today - 6 \<le> e_expense_date e \<and> e_expense_date e \<le> today" if "e \<in> set W" for e
    using that past by (auto simp: W_def)
  have es_W: "es = filter (\<lambda>e. to_char_DY (e_expense_date e) = label) W"
    unfolding es_def W_def using past by (auto intro!: filter_cong)
  have dict_src: "weekly_expenses_data (dashboard_data to_float d user_id today) = py_dict pairs"
    by (simp add: dashboard_data_def Let_def q_weekly_def order_by_def pairs_def F_def G_def W_def
        comp_def case_prod_unfold to_char_DY_clean)
  have inj: "inj_on to_char_DY (e_expense_date ` set W)"
    by (rule inj_onI) (auto dest!: win intro: to_char_DY_inj_week)
  have "map fst (map F G) = map to_char_DY (remdups (map e_expense_date W))"
    by (simp add: F_def G_def sql_group_by_def comp_def)
  moreover have "distinct (map to_char_DY (remdups (map e_expense_date W)))"
    using inj by (simp add: distinct_map)
  ultimately have "distinct (map fst (map F G))" by simp
  then have "distinct (map (fst \<circ> F) (sort_key fst G))"
    by (simp add: distinct_map_sort_key)
  then have dist: "distinct (map fst pairs)" by (simp add: pairs_def)
  have dict: "weekly_expenses_data (dashboard_data to_float d user_id today) = pairs"
    using dict_src py_dict_distinct[OF dist] by simp
  have set_pairs: "set pairs = (\<lambda>k. (to_char_DY k, to_float (sum_list (map e_amount (filter (\<lambda>e. e_expense_date e = k) W)))))
      ` (e_expense_date ` set W)"
    by (auto simp: pairs_def F_def G_def sql_group_by_def image_iff)
  show ?thesis
  proof (cases "es = []")
    case True
    have "label \<notin> fst ` set pairs"
    proof
      assume "label \<in> fst ` set pairs"
      then obtain e where "e \<in> set W" "to_char_DY (e_expense_date e) = label"
        by (auto simp: set_pairs)
      then have "e \<in> set es" by (simp add: es_W)
      with True show False by simp
    qed
    then have "map_of pairs label = None" by (simp add: map_of_eq_None_iff)
    with True show ?thesis by (simp add: dict es_def[symmetric] Let_def)
  next
    case False
    then obtain e0 where "e0 \<in> set es" by (cases es) auto
    then have e0: "e0 \<in> set W" "to_char_DY (e_expense_date e0) = label"
      by (simp_all add: es_W)
    have "es = filter (\<lambda>e. e_expense_date e = e_expense_date e0) W"
      unfolding es_W
    proof (rule filter_cong[OF refl])
      fix e assume "e \<in> set W"
      then show "(to_char_DY (e_expense_date e) = label) = (e_expense_date e = e_expense_date e0)"
        using e0 inj by (auto dest: inj_onD)
    qed
    then have "(label, to_float (sum_list (map e_amount es))) \<in> set pairs"
      using e0 by (auto simp: set_pairs image_iff)
    then have "map_of pairs label = Some (to_float (sum_list (map e_amount es)))"
      using dist by simp
    with False show ?thesis by (simp add: dict es_def[symmetric] Let_def)
  qed
qed

theorem weekly_series_trailing_week_witness:
  "map_of (weekly_expenses_data (dashboard_data (\<lambda>x. x) week_db 1 (make_date 2024 3 19))) ''WED''
     = Some 14"
proof -
  have h: "\<forall>e\<in>set (expenses week_db). e_user_id e = 1 \<longrightarrow> e_expense_date e \<le> make_date 2024 3 19"
    by code_simp
  have "(let es = filter (\<lambda>e. e_user_id e = 1 \<and> make_date 2024 3 19 - 6 \<le> e_expense_date e \<and>
                           e_expense_date e \<le> make_date 2024 3 19 \<and> to_char_DY (e_expense_date e) = ''WED'')
                 (expenses week_db)
      in if es = [] then None else Some (sum_list (map e_amount es))) = Some (14::rat)"
    by code_simp
  with weekly_series_trailing_week[OF h, of "\<lambda>x. x" "''WED''"] show ?thesis by simp
qed

text \<open>
  Claim C6 as stated fails when an expense is dated after today. The rows are grouped by
  date and stored under their day label, so the later date replaces the earlier one: the
  Wednesday of the trailing week carries 10, the chart shows the 5 of next Wednesday.
\<close>

theorem weekly_series_future_entry:
  "weekly_expenses_data (dashboard_data (\<lambda>x. x) future_db 1 (make_date 2024 3 19)) = [(''WED'', 5)]
   \<and> sum_list (map e_amount (filter (\<lambda>e. e_user_id e = 1 \<and> make_date 2024 3 19 - 6 \<le> e_expense_date e \<and>
         e_expense_date e \<le> make_date 2024 3 19 \<and> to_char_DY (e_expense_date e) = ''WED'')
       (expenses future_db))) = 10"
  by code_simp

section \<open>Properties of the comprehensive report\<close>

lemma map_of_foldl_update:
  "map_of (foldl (\<lambda>d (k, v). AList.update k v d) acc ps) x =
     (case map_of (rev ps) x of Some v \<Rightarrow> Some v | None \<Rightarrow> map_of acc x)"
proof (induction ps arbitrary: acc)
  case Nil
  then show ?case by simp
next
  case (Cons p ps)
  obtain k v where p: "p = (k, v)" by (cases p)
  show ?case
    by (simp add: Cons.IH p update_conv' map_add_def split: option.split)
qed

lemma map_of_py_dict: "map_of (py_dict ps) x = map_of (rev ps) x"
  by (simp add: py_dict_def map_of_foldl_update split: option.split)

lemma set_keys_py_dict: "set (dict_keys (py_dict ps)) = fst ` set ps"
proof -
  have "dom (map_of (py_dict ps)) = dom (map_of (rev ps))"
    by (intro arg_cong[where f = dom] ext) (rule map_of_py_dict)
  then show ?thesis by (simp add: dom_map_of_conv_image_fst dict_keys_def)
qed

lemma map_of_rev_last:
  "map_of (rev (map (\<lambda>r. (key r, f r)) rows)) x =
     (case filter (\<lambda>r. key r = x) rows of [] \<Rightarrow> None | r # rs \<Rightarrow> Some (f (last (r # rs))))"
proof (induction rows rule: rev_induct)
  case Nil
  then show ?case by simp
next
  case (snoc r rows)
  then show ?case by (auto split: list.splits)
qed

lemma map_of_group_totals:
  "map_of (q_spent_by_category d u t) c =
     (let es = filter (\<lambda>e. e_category e = c) (month_expenses d u t)
      in if es = [] then None else Some (sum_list (map e_amount es)))"
proof -
  let ?M = "month_expenses d u t"
  have "q_spent_by_category d u t =
      map (\<lambda>k. (k, sum_list (map e_amount (filter (\<lambda>e. e_category e = k) ?M)))) (remdups (map e_category ?M))"
    by (simp add: q_spent_by_category_def sql_group_by_def)
  then have "map_of (q_spent_by_category d u t) c =
      (if c \<in> set (remdups (map e_category ?M))
       then Some (sum_list (map e_amount (filter (\<lambda>e. e_category e = c) ?M))) else None)"
    by (simp add: map_of_map_restrict restrict_map_def)
  also have "c \<in> set (remdups (map e_category ?M)) \<longleftrightarrow> filter (\<lambda>e. e_category e = c) ?M \<noteq> []"
    by (auto simp: filter_empty_conv)
  finally show ?thesis by (simp add: Let_def)
qed

lemma dict_get_py_dict_rows:
  "dict_get (py_dict (map (\<lambda>r. (key r, f r)) rows)) x dflt =
     (case filter (\<lambda>r. key r = x) rows of [] \<Rightarrow> dflt | r # rs \<Rightarrow> f (last (r # rs)))"
  by (simp add: dict_get_def map_of_py_dict map_of_rev_last split: list.split)

lemma actual_spending_dict:
  "py_dict (map (\<lambda>(category, total_spent). (category, to_float total_spent)) (q_spent_by_category d u t))
     = map (\<lambda>(category, total_spent). (category, to_float total_spent)) (q_spent_by_category d u t)"
  by (rule py_dict_distinct) (simp add: comp_def case_prod_unfold spent_by_category_keys[unfolded comp_def])

lemma map_of_map_snd:
  "map_of (map (\<lambda>(k, v). (k, f v)) xs) c = map_option f (map_of xs c)"
  by (induction xs) auto

lemma dict_get_actual:
  "dict_get (map (\<lambda>(category, total_spent). (category, to_float total_spent)) (q_spent_by_category d u t)) c dflt =
     (let es = filter (\<lambda>e. e_category e = c) (month_expenses d u t)
      in if es = [] then dflt else to_float (sum_list (map e_amount es)))"
proof -
  have "map_of (map (\<lambda>(category, total_spent). (category, to_float total_spent)) (q_spent_by_category d u t)) c
      = map_option to_float (map_of (q_spent_by_category d u t) c)"
    by (rule map_of_map_snd)
  then show ?thesis by (simp add: dict_get_def map_of_group_totals Let_def)
qed

text \<open>
  Claim C5. In the comprehensive report the labels of \<open>budget_vs_actual\<close> are the
  sorted union of the category names of the user's category budgets and of the user's
  expenses of this month. The three arrays have one length, and at every index
  \<open>budgeted\<close> holds the budgeted amount of the label (of the last stored row, should
  the name occur twice), or 0 when the label has no budget, and \<open>actual\<close> holds the
  sum of this month's amounts in that category, or 0 when there is none.
\<close>

theorem budget_vs_actual_aligned:
  fixes to_float :: "rat \<Rightarrow> 'f::zero" and d :: db and user_id :: nat and today :: date
  defines "r \<equiv> budget_vs_actual (comprehensive_report to_float d user_id today)"
  shows "bva_labels r =
       sorted_list_of_set (cb_category_name ` set (q_category_budgets d user_id)
                           \<union> e_category ` set (month_expenses d user_id today))
   \<and> length (bva_budgeted r) = length (bva_labels r)
   \<and> length (bva_actual r) = length (bva_labels r)
   \<and> (\<forall>i < length (bva_labels r).
         bva_budgeted r ! i =
           (case filter (\<lambda>b. cb_category_name b = bva_labels r ! i) (q_category_budgets d user_id) of
              [] \<Rightarrow> 0
            | b # bs \<Rightarrow> to_float (cb_amount (last (b # bs))))
       \<and> bva_actual r ! i =
           (let es = filter (\<lambda>e. e_category e = bva_labels r ! i) (month_expenses d user_id today)
            in if es = [] then 0 else to_float (sum_list (map e_amount es))))"
proof -
  let ?A = "map (\<lambda>(category, total_spent). (category, to_float total_spent)) (q_spent_by_category d user_id today)"
  let ?B = "py_dict (map (\<lambda>r. (cb_category_name r, to_float (cb_amount r))) (q_category_budgets d user_id))"
  let ?L = "sorted_union (dict_keys ?A) (dict_keys ?B)"
  have r: "r = \<lparr> bva_labels = ?L,
                 bva_budgeted = map (\<lambda>cat. dict_get ?B cat 0) ?L,
                 bva_actual = map (\<lambda>cat. dict_get ?A cat 0) ?L \<rparr>"
    by (simp add: r_def comprehensive_report_def Let_def actual_spending_dict)
  have keysA: "set (dict_keys ?A) = e_category ` set (month_expenses d user_id today)"
    by (simp add: dict_keys_def comp_def case_prod_unfold spent_by_category_keys[unfolded comp_def])
  have keysB: "set (dict_keys ?B) = cb_category_name ` set (q_category_budgets d user_id)"
    by (simp add: set_keys_py_dict image_image)
  have labels: "bva_labels r =
       sorted_list_of_set (cb_category_name ` set (q_category_budgets d user_id)
                           \<union> e_category ` set (month_expenses d user_id today))"
    by (simp add: r sorted_union_def keysA keysB Un_commute)
  have bud: "bva_budgeted r = map (\<lambda>cat. dict_get ?B cat 0) (bva_labels r)"
    by (simp add: r)
  have act: "bva_actual r = map (\<lambda>cat. dict_get ?A cat 0) (bva_labels r)"
    by (simp add: r)
  show ?thesis
  proof (intro conjI allI impI)
    show "bva_labels r =
       sorted_list_of_set (cb_category_name ` set (q_category_budgets d user_id)
                           \<union> e_category ` set (month_expenses d user_id today))"
      by (rule labels)
    show "length (bva_budgeted r) = length (bva_labels r)" by (simp add: bud)
    show "length (bva_actual r) = length (bva_labels r)" by (simp add: act)
  next
    fix i assume i: "i < length (bva_labels r)"
    then show "bva_budgeted r ! i =
           (case filter (\<lambda>b. cb_category_name b = bva_labels r ! i) (q_category_budgets d user_id) of
              [] \<Rightarrow> 0
            | b # bs \<Rightarrow> to_float (cb_amount (last (b # bs))))"
      by (simp add: bud dict_get_py_dict_rows)
    from i show "bva_actual r ! i =
           (let es = filter (\<lambda>e. e_category e = bva_labels r ! i) (month_expenses d user_id today)
            in if es = [] then 0 else to_float (sum_list (map e_amount es)))"
      by (simp add: act dict_get_actual)
  qed
qed

theorem budget_vs_actual_aligned_witness:
  "bva_labels (budget_vs_actual (comprehensive_report (\<lambda>x. x) report_db 1 (make_date 2024 3 19)))
     = [''Food'', ''Fuel'', ''Rent'', ''Travel'']
   \<and> bva_budgeted (budget_vs_actual (comprehensive_report (\<lambda>x. x) report_db 1 (make_date 2024 3 19))) ! 0 = 25
   \<and> bva_actual (budget_vs_actual (comprehensive_report (\<lambda>x. x) report_db 1 (make_date 2024 3 19))) ! 0 = 10
   \<and> bva_budgeted (budget_vs_actual (comprehensive_report (\<lambda>x. x) report_db 1 (make_date 2024 3 19))) ! 1 = 0
   \<and> bva_actual (budget_vs_actual (comprehensive_report (\<lambda>x. x) report_db 1 (make_date 2024 3 19))) ! 3 = 0"
proof -
  let ?r = "budget_vs_actual (comprehensive_report (\<lambda>x. x :: rat) report_db 1 (make_date 2024 3 19))"
  note T = budget_vs_actual_aligned[of "\<lambda>x. x :: rat" report_db 1 "make_date 2024 3 19"]
  have L: "sorted_list_of_set (cb_category_name ` set (q_category_budgets report_db 1)
                           \<union> e_category ` set (month_expenses report_db 1 (make_date 2024 3 19)))
       = [''Food'', ''Fuel'', ''Rent'', ''Travel'']"
    by code_simp
  from T L have labels: "bva_labels ?r = [''Food'', ''Fuel'', ''Rent'', ''Travel'']" by simp
  have B0: "(case filter (\<lambda>b. cb_category_name b = ''Food'') (q_category_budgets report_db 1) of
              [] \<Rightarrow> 0 | b # bs \<Rightarrow> cb_amount (last (b # bs))) = 25"
    by code_simp
  have B1: "(case filter (\<lambda>b. cb_category_name b = ''Fuel'') (q_category_budgets report_db 1) of
              [] \<Rightarrow> 0 | b # bs \<Rightarrow> cb_amount (last (b # bs))) = 0"
    by code_simp
  have A0: "(let es = filter (\<lambda>e. e_category e = ''Food'') (month_expenses report_db 1 (make_date 2024 3 19))
            in if es = [] then 0 else sum_list (map e_amount es)) = 10"
    by code_simp
  have A3: "(let es = filter (\<lambda>e. e_category e = ''Travel'') (month_expenses report_db 1 (make_date 2024 3 19))
            in if es = [] then 0 else sum_list (map e_amount es)) = 0"
    by code_simp
  from T have elems: "\<forall>i < length (bva_labels ?r).
         bva_budgeted ?r ! i =
           (case filter (\<lambda>b. cb_category_name b = bva_labels ?r ! i) (q_category_budgets report_db 1) of
              [] \<Rightarrow> 0
            | b # bs \<Rightarrow> cb_amount (last (b # bs)))
       \<and> bva_actual ?r ! i =
           (let es = filter (\<lambda>e. e_category e = bva_labels ?r ! i) (month_expenses report_db 1 (make_date 2024 3 19))
            in if es = [] then 0 else sum_list (map e_amount es))"
    by blast
  from elems[rule_format, of 0] elems[rule_format, of 1] elems[rule_format, of 3]
  show ?thesis
    unfolding labels using B0 B1 A0 A3 by simp
qed

subsection \<open>The summary line graph\<close>

lemma map_of_foldl_update_other:
  "\<forall>item\<in>set items. key item \<noteq> x \<Longrightarrow>
   map_of (foldl (\<lambda>acc item. AList.update (key item) (f item) acc) acc0 items) x = map_of acc0 x"
  by (induction items arbitrary: acc0) (auto simp: update_conv')

lemma example_month_keys:
  "to_char_YYYY_MM (make_date 2024 3 13) = ''2024-03''"
  "to_char_YYYY_MM (make_date 2024 3 18) = ''2024-03''"
  "to_char_YYYY_MM (make_date 2024 2 14) = ''2024-02''"
proof -
  have y: "year_of (make_date 2024 3 13) = 2024" "date_part_month (make_date 2024 3 13) = 3"
    "year_of (make_date 2024 3 18) = 2024" "date_part_month (make_date 2024 3 18) = 3"
    "year_of (make_date 2024 2 14) = 2024" "date_part_month (make_date 2024 2 14) = 2"
    by code_simp+
  have d: "dec 2024 = ''2024''" "dec 3 = ''3''" "dec 2 = ''2''"
    by (simp_all add: dec.simps digit_char_def)
  show "to_char_YYYY_MM (make_date 2024 3 13) = ''2024-03''"
    "to_char_YYYY_MM (make_date 2024 3 18) = ''2024-03''"
    "to_char_YYYY_MM (make_date 2024 2 14) = ''2024-02''"
    by (simp_all add: to_char_YYYY_MM_def yyyy_mm_def y d lpad0_def)
qed

lemma report_db_by_month:
  "q_expenses_by_month report_db 1 = [(''2024-03'', 21), (''2024-02'', 3)]"
  by (simp add: q_expenses_by_month_def report_db_def week_db_def empty_db_def ex_expense_def
      sql_group_by_def order_by_desc_def example_month_keys)

text \<open>
  \<open>summary_line_graph\<close> holds the keys and the values of \<open>expenses_by_month\<close> and an
  income array of the same length, so the three arrays are parallel. The income entry is
  read back from \<open>income_sources\<close> under the key \<open>Salary / Main\<close>. On the states in which
  no other-income source of the user carries that name, every entry is the user's monthly
  income (0 when the user has no income row).
\<close>

lemma summary_line_graph_income:
  fixes to_float :: "rat \<Rightarrow> 'f::zero" and d :: db and user_id :: nat and today :: date
  defines "R \<equiv> comprehensive_report to_float d user_id today"
  assumes no_clash: "\<forall>item\<in>set (q_other_incomes d user_id). oi_source_name item \<noteq> ''Salary / Main''"
  shows "slg_labels (summary_line_graph R) = map fst (expenses_by_month R)
   \<and> slg_expenses (summary_line_graph R) = map snd (expenses_by_month R)
   \<and> length (slg_expenses (summary_line_graph R)) = length (slg_labels (summary_line_graph R))
   \<and> length (slg_income (summary_line_graph R)) = length (slg_labels (summary_line_graph R))
   \<and> (\<forall>i < length (slg_income (summary_line_graph R)).
         slg_income (summary_line_graph R) ! i =
           (case fetchone (q_income d user_id) of
              Some r \<Rightarrow> to_float (inc_monthly_income r)
            | None \<Rightarrow> 0))"
  using map_of_foldl_update_other[where key = oi_source_name
      and f = "\<lambda>item. to_float (oi_amount item)", OF no_clash]
  by (simp add: R_def comprehensive_report_def Let_def dict_keys_def dict_values_def dict_get_def)

lemma report_db_expenses_by_month:
  "expenses_by_month (comprehensive_report (\<lambda>x. x) report_db 1 (make_date 2024 3 19))
     = [(''2024-02'', 3), (''2024-03'', 21)]"
  by (simp add: comprehensive_report_def Let_def report_db_by_month[unfolded One_nat_def] py_dict_def)

lemma summary_line_graph_income_example:
  "slg_labels (summary_line_graph (comprehensive_report (\<lambda>x. x) report_db 1 (make_date 2024 3 19)))
      = [''2024-02'', ''2024-03'']
   \<and> slg_expenses (summary_line_graph (comprehensive_report (\<lambda>x. x) report_db 1 (make_date 2024 3 19)))
      = [3, 21]
   \<and> slg_income (summary_line_graph (comprehensive_report (\<lambda>x. x) report_db 1 (make_date 2024 3 19)))
      = [1000, 1000]"
proof -
  let ?g = "summary_line_graph (comprehensive_report (\<lambda>x. x :: rat) report_db 1 (make_date 2024 3 19))"
  have h: "\<forall>item\<in>set (q_other_incomes report_db 1). oi_source_name item \<noteq> ''Salary / Main''"
    by code_simp
  note T = summary_line_graph_income[OF h, of "\<lambda>x. x" "make_date 2024 3 19"]
  have inc: "(case fetchone (q_income report_db 1) of Some r \<Rightarrow> inc_monthly_income r | None \<Rightarrow> 0) = 1000"
    by code_simp
  note E = report_db_expenses_by_month
  from T[THEN conjunct1] have labels: "slg_labels ?g = [''2024-02'', ''2024-03'']"
    by (simp only: E list.map fst_conv)
  from T[THEN conjunct2, THEN conjunct1] have exps: "slg_expenses ?g = [3, 21]"
    by (simp only: E list.map snd_conv)
  from T[THEN conjunct2, THEN conjunct2, THEN conjunct2, THEN conjunct1] labels
  have len: "length (slg_income ?g) = 2" by simp
  from T[THEN conjunct2, THEN conjunct2, THEN conjunct2, THEN conjunct2] inc
  have "\<forall>i < length (slg_income ?g). slg_income ?g ! i = 1000" by (simp only:)
  with len have "slg_income ?g = [1000, 1000]"
    by (intro nth_equalityI) (auto simp: less_Suc_eq numeral_2_eq_2)
  with labels exps show ?thesis by (simp only: simp_thms)
qed

text \<open>
  Claim C10 does not hold of the code. The handler stores the main income and the other
  incomes in one dictionary, keyed by source name, and reads the main income back from it.
  A user with a monthly income of 1000 and an other income of 50 that is itself named
  \<open>Salary / Main\<close> gets an income array that repeats 50: the later entry has replaced
  the main income under the shared key.
\<close>

theorem summary_line_graph_income_clash:
  "slg_income (summary_line_graph (comprehensive_report (\<lambda>x. x) salary_clash_db 1 (make_date 2024 3 19)))
      = [50]
   \<and> map inc_monthly_income (q_income salary_clash_db 1) = [1000]
   \<and> map oi_source_name (q_other_incomes salary_clash_db 1) = [''Salary / Main'']"
  by (simp add: comprehensive_report_def Let_def salary_clash_db_def empty_db_def ex_expense_def
      q_expenses_by_month_def sql_group_by_def order_by_desc_def py_dict_def q_income_def
      q_other_incomes_def fetchone_def dict_get_def)

section \<open>Year-month keys and their order\<close>

lemma div_boundsE:
  fixes a c :: int
  assumes "0 < c"
  obtains q where "a div c = q" "c * q \<le> a" "a < c * q + c"
proof -
  from assms have "c * (a div c) \<le> a" "a < c * (a div c) + c"
    using mult_div_mod_eq[of c a] pos_mod_sign[of c a] pos_mod_bound[of c a] by linarith+
  then show ?thesis using that by blast
qed

lemma mp_bound: "(x::int) < 467 \<Longrightarrow> w < 2 \<Longrightarrow> 153 * mp \<le> 5 * x + 5 * w + 2 \<Longrightarrow> mp < 109"
  by linarith

lemma nat_lt_100: "(k::int) < 100 \<Longrightarrow> nat k < 100"
  by linarith

lemma month_lt_100: "date_part_month d < 100"
proof -
  define z where "z = d + 719468"
  obtain doe where doe: "z mod 146097 = doe" "0 \<le> doe" "doe < 146097"
    using pos_mod_sign[of 146097 z] pos_mod_bound[of 146097 z] by simp
  obtain q1 where q1: "doe div 1460 = q1" "1460 * q1 \<le> doe" "doe < 1460 * q1 + 1460"
    by (rule div_boundsE[of 1460 doe]) simp_all
  obtain q2 where q2: "doe div 36524 = q2" "36524 * q2 \<le> doe" "doe < 36524 * q2 + 36524"
    by (rule div_boundsE[of 36524 doe]) simp_all
  obtain q3 where q3: "doe div 146096 = q3" "146096 * q3 \<le> doe" "doe < 146096 * q3 + 146096"
    by (rule div_boundsE[of 146096 doe]) simp_all
  obtain yoe where yoe: "(doe - q1 + q2 - q3) div 365 = yoe"
      "365 * yoe \<le> doe - q1 + q2 - q3" "doe - q1 + q2 - q3 < 365 * yoe + 365"
    by (rule div_boundsE[of 365 "doe - q1 + q2 - q3"]) simp_all
  obtain q4 where q4: "yoe div 4 = q4" "4 * q4 \<le> yoe" "yoe < 4 * q4 + 4"
    by (rule div_boundsE[of 4 yoe]) simp_all
  obtain q5 where q5: "yoe div 100 = q5" "100 * q5 \<le> yoe" "yoe < 100 * q5 + 100"
    by (rule div_boundsE[of 100 yoe]) simp_all
  obtain mp where mp: "(5 * (doe - (365 * yoe + q4 - q5)) + 2) div 153 = mp"
      "153 * mp \<le> 5 * (doe - (365 * yoe + q4 - q5)) + 2"
      "5 * (doe - (365 * yoe + q4 - q5)) + 2 < 153 * mp + 153"
    by (rule div_boundsE[of 153 "5 * (doe - (365 * yoe + q4 - q5)) + 2"]) simp_all
  have h1: "q1 < 101" "q1 \<le> doe" using doe(2,3) q1(2) by linarith+
  have h2: "0 \<le> q2" using doe(2) q2(3) by linarith
  have h3: "q3 < 2" using doe(3) q3(2) by linarith
  have a: "doe - 365 * yoe < 467" using yoe(3) h1(1) h2 h3 by linarith
  have y: "- 2 < yoe" using yoe(3) h1(2) h2 h3 by linarith
  have b: "q5 - q4 < 2" using y q4(3) q5(2) by linarith
  have c: "5 * (doe - (365 * yoe + q4 - q5)) + 2 = 5 * (doe - 365 * yoe) + 5 * (q5 - q4) + 2"
    by (simp add: algebra_simps)
  have "mp < 109" using mp_bound[OF a b mp(2)[unfolded c]] .
  then have "(if mp < 10 then mp + 3 else mp - 9) < 100" by simp
  then have "nat (if mp < 10 then mp + 3 else mp - 9) < 100" by (rule nat_lt_100)
  then show ?thesis
    unfolding date_part_month_def civil_from_days_def Let_def z_def[symmetric]
    by (simp only: doe(1) q1(1) q2(1) q3(1) yoe(1) q4(1) q5(1) mp(1) fst_conv snd_conv)
qed

lemma digit_char_table:
  "list_all (\<lambda>n. is_digit (digit_char n) \<and> dval (digit_char n) = n) [0..<10]"
  by code_simp

lemma digit_char_ok: "n < 10 \<Longrightarrow> is_digit (digit_char n) \<and> dval (digit_char n) = n"
  using digit_char_table by (simp add: list_all_iff)

lemma digit_order_table:
  "list_all (\<lambda>a. list_all (\<lambda>b. (a < b) = (dval a < dval b) \<and> (a = b) = (dval a = dval b))
     ''0123456789'') ''0123456789''"
  by code_simp

lemma digit_order:
  "is_digit a \<Longrightarrow> is_digit b \<Longrightarrow> (a < b) = (dval a < dval b) \<and> (a = b) = (dval a = dval b)"
  using digit_order_table unfolding is_digit_def list_all_iff by blast

lemma dval_table: "list_all (\<lambda>a. dval a < 10) ''0123456789''"
  by code_simp

lemma dval_lt: "is_digit a \<Longrightarrow> dval a < 10"
  using dval_table unfolding is_digit_def list_all_iff by blast

lemma zero_digit: "is_digit (CHR ''0'')" "dval (CHR ''0'') = 0"
  by code_simp+

lemma num_be_lt: "list_all is_digit s \<Longrightarrow> num_be s < 10 ^ length s"
proof (induction s)
  case Nil
  then show ?case by simp
next
  case (Cons c cs)
  then have "dval c < 10" "num_be cs < 10 ^ length cs" by (simp_all add: dval_lt)
  then have "dval c * 10 ^ length cs + num_be cs < (dval c + 1) * 10 ^ length cs" by simp
  also have "\<dots> \<le> 10 * 10 ^ length cs"
    using \<open>dval c < 10\<close> by (intro mult_le_mono1) simp
  finally show ?case by simp
qed

lemma weighted_less:
  fixes a b p x y :: nat
  assumes "x < p" "y < p"
  shows "(a * p + x < b * p + y) = (a < b \<or> a = b \<and> x < y)"
proof (cases a b rule: linorder_cases)
  case less
  then have "(a + 1) * p \<le> b * p" by (intro mult_le_mono1) simp
  with assms less show ?thesis by simp
next
  case equal
  then show ?thesis by simp
next
  case greater
  then have "(b + 1) * p \<le> a * p" by (intro mult_le_mono1) simp
  with assms greater show ?thesis by simp
qed

lemma weighted_eq:
  fixes a b p x y :: nat
  assumes "x < p" "y < p"
  shows "(a * p + x = b * p + y) = (a = b \<and> x = y)"
  using weighted_less[OF assms, of a b] weighted_less[OF assms(2,1), of b a] by auto

lemma digits_order:
  "length xs = length ys \<Longrightarrow> list_all is_digit xs \<Longrightarrow> list_all is_digit ys \<Longrightarrow>
   (xs < ys) = (num_be xs < num_be ys) \<and> (xs = ys) = (num_be xs = num_be ys)"
proof (induction xs ys rule: list_induct2)
  case Nil
  then show ?case by simp
next
  case (Cons a xs b ys)
  then have d: "is_digit a" "is_digit b" and IH: "(xs < ys) = (num_be xs < num_be ys)"
      "(xs = ys) = (num_be xs = num_be ys)"
    by simp_all
  have lt: "num_be xs < 10 ^ length ys" "num_be ys < 10 ^ length ys"
    using num_be_lt[of xs] num_be_lt[of ys] Cons by simp_all
  show ?case
    using digit_order[OF d] IH weighted_less[OF lt] weighted_eq[OF lt] Cons.hyps
    by simp
qed

lemma num_be_snoc: "num_be (xs @ [c]) = 10 * num_be xs + dval c"
  by (induction xs) (simp_all add: algebra_simps)

lemma dec_digits: "list_all is_digit (dec n) \<and> num_be (dec n) = n"
proof (induction n rule: dec.induct)
  case (1 n)
  show ?case
  proof (cases "n < 10")
    case True
    then show ?thesis using digit_char_ok[of n] by (simp add: dec.simps[of n])
  next
    case False
    have "n mod 10 < 10" by simp
    from digit_char_ok[OF this] "1.IH"[OF False] False show ?thesis
      by (simp add: dec.simps[of n] num_be_snoc)
  qed
qed

lemma dec_length: "n < 10 ^ w \<Longrightarrow> 0 < w \<Longrightarrow> length (dec n) \<le> w"
proof (induction n arbitrary: w rule: dec.induct)
  case (1 n)
  show ?case
  proof (cases "n < 10")
    case True
    then show ?thesis using "1.prems" by (simp add: dec.simps[of n])
  next
    case False
    with "1.prems" obtain v where w: "w = Suc v" by (cases w) auto
    with False "1.prems" have "0 < v" by (cases v) auto
    moreover from "1.prems" w have "n div 10 < 10 ^ v"
      by (simp add: less_mult_imp_div_less mult.commute)
    ultimately have "length (dec (n div 10)) \<le> v" using "1.IH"[OF False] by blast
    with False w show ?thesis by (simp add: dec.simps[of n])
  qed
qed

lemma num_be_zeros: "num_be (replicate k (CHR ''0'') @ s) = num_be s"
  by (induction k) (simp_all add: zero_digit)

lemma lpad0_dec:
  assumes "n < 10 ^ w" "0 < w"
  shows "length (lpad0 w (dec n)) = w" "list_all is_digit (lpad0 w (dec n))"
    "num_be (lpad0 w (dec n)) = n"
  using dec_length[OF assms] dec_digits[of n]
  by (auto simp add: lpad0_def num_be_zeros zero_digit list_all_iff)


lemma append_less_same_length:
  "length xs = length ys \<Longrightarrow> (xs @ us < ys @ vs) = (xs < ys \<or> xs = ys \<and> us < (vs :: 'a::linorder list))"
  by (induction xs ys rule: list_induct2) auto

lemma yyyy_mm_order:
  assumes "0 < y1" "y1 < 10000" "m1 < 100" "0 < y2" "y2 < 10000" "m2 < 100"
  shows "(yyyy_mm y1 m1 < yyyy_mm y2 m2) = ((y1, m1) < (y2, m2))"
    and "(yyyy_mm y1 m1 = yyyy_mm y2 m2) = ((y1, m1) = (y2, m2))"
proof -
  let ?Y1 = "lpad0 4 (dec (nat y1))" and ?Y2 = "lpad0 4 (dec (nat y2))"
  let ?M1 = "lpad0 2 (dec m1)" and ?M2 = "lpad0 2 (dec m2)"
  from assms have n: "nat y1 < 10 ^ 4" "nat y2 < 10 ^ 4" "m1 < 10 ^ 2" "m2 < 10 ^ 2" by simp_all
  note Y1 = lpad0_dec[OF n(1)] and Y2 = lpad0_dec[OF n(2)]
    and M1 = lpad0_dec[OF n(3)] and M2 = lpad0_dec[OF n(4)]
  have lenY: "length ?Y1 = length ?Y2" using Y1(1) Y2(1) by simp
  have lenM: "length ?M1 = length ?M2" using M1(1) M2(1) by simp
  have Y: "(?Y1 < ?Y2) = (y1 < y2)" "(?Y1 = ?Y2) = (y1 = y2)"
    using digits_order[OF lenY] Y1 Y2 assms by auto
  have M: "(?M1 < ?M2) = (m1 < m2)" "(?M1 = ?M2) = (m1 = m2)"
    using digits_order[OF lenM] M1 M2 by auto
  have k1: "yyyy_mm y1 m1 = ?Y1 @ (CHR ''-'' # ?M1)" and k2: "yyyy_mm y2 m2 = ?Y2 @ (CHR ''-'' # ?M2)"
    using assms by (simp_all add: yyyy_mm_def)
  show "(yyyy_mm y1 m1 < yyyy_mm y2 m2) = ((y1, m1) < (y2, m2))"
    unfolding k1 k2 append_less_same_length[OF lenY] using Y M by auto
  show "(yyyy_mm y1 m1 = yyyy_mm y2 m2) = ((y1, m1) = (y2, m2))"
    unfolding k1 k2 using lenY Y M by auto
qed

subsection \<open>The multi-month series\<close>

lemma insort_key_map_pair:
  "insort_key fst (k, g k) (map (\<lambda>k. (k, g k)) ks) = map (\<lambda>k. (k, g k)) (insort k ks)"
  by (induction ks) simp_all

lemma sort_key_map_pair:
  "sort_key fst (map (\<lambda>k. (k, g k)) ks) = map (\<lambda>k. (k, g k)) (sort ks)"
  by (induction ks) (simp_all add: insort_key_map_pair)

lemma rev_take_rev: "rev (take n (rev xs)) = drop (length xs - n) xs"
  by (simp add: rev_take)

lemma sort_remdups_map_mono:
  fixes f :: "'a::linorder \<Rightarrow> 'b::linorder"
  assumes mono: "\<And>a b. a \<in> set xs \<Longrightarrow> b \<in> set xs \<Longrightarrow> (f a < f b) = (a < b)"
    and inj: "\<And>a b. a \<in> set xs \<Longrightarrow> b \<in> set xs \<Longrightarrow> (f a = f b) = (a = b)"
  shows "sort (remdups (map f xs)) = map f (sorted_list_of_set (set xs))"
proof (rule sorted_distinct_set_unique)
  let ?ys = "sorted_list_of_set (set xs)"
  have le: "f a \<le> f b" if "a \<in> set xs" "b \<in> set xs" "a \<le> b" for a b
    using that mono[of a b] inj[of a b] by (auto simp: le_less)
  have "sorted_wrt (\<lambda>a b. f a \<le> f b) ?ys"
    by (rule sorted_wrt_mono_rel[of ?ys "(\<le>)"]) (auto intro: le)
  then show "sorted (map f ?ys)" by (simp add: sorted_map)
  have "inj_on f (set xs)" by (rule inj_onI) (simp add: inj)
  then show "distinct (map f ?ys)" by (simp add: distinct_map)
  show "set (sort (remdups (map f xs))) = set (map f ?ys)" by simp
qed simp_all


text \<open>
  Claim C4, as the code has it. For a user whose expenses are all dated in the years 1 to
  9999, \<open>expenses_by_month\<close> lists, in ascending order of time, the most recent at most
  six year-months that have an expense of the user, each under its \<open>YYYY-MM\<close> key with
  the sum of the amounts of the expenses in that year-month. The list is the reverse of the
  descending query result; the right-hand side depends on the set of months and the
  per-month sums only, not on the order in which the rows were inserted.
\<close>

theorem expenses_by_month_chronological:
  fixes to_float :: "rat \<Rightarrow> 'f::zero"
  assumes years: "\<forall>e\<in>set (expenses d). e_user_id e = user_id \<longrightarrow>
      0 < year_of (e_expense_date e) \<and> year_of (e_expense_date e) < 10000"
  shows "expenses_by_month (comprehensive_report to_float d user_id today) =
     map (\<lambda>ym. (yyyy_mm (fst ym) (snd ym),
                to_float (sum_list (map e_amount
                  (filter (\<lambda>e. e_user_id e = user_id \<and> year_month (e_expense_date e) = ym)
                     (expenses d))))))
       (let months = sorted_list_of_set
              (year_month ` e_expense_date ` {e \<in> set (expenses d). e_user_id e = user_id})
        in drop (length months - 6) months)"
proof -
  define U where "U = filter (\<lambda>e. e_user_id e = user_id) (expenses d)"
  define ym where "ym = (\<lambda>e :: expense_row. year_month (e_expense_date e))"
  define kf where "kf = (\<lambda>p :: int \<times> nat. yyyy_mm (fst p) (snd p))"
  define K where "K = (\<lambda>e :: expense_row. to_char_YYYY_MM (e_expense_date e))"
  define g where "g = (\<lambda>k. sum_list (map e_amount (filter (\<lambda>e. K e = k) U)))"
  define S where "S = sorted_list_of_set (set (map ym U))"
  have K_kf: "K e = kf (ym e)" for e
    by (simp add: K_def kf_def ym_def to_char_YYYY_MM_def year_month_def)
  have valid: "0 < fst p \<and> fst p < 10000 \<and> snd p < 100" if "p \<in> set (map ym U)" for p
    using that years by (auto simp: U_def ym_def year_month_def month_lt_100)
  have kf_less: "(kf a < kf b) = (a < b)" if "a \<in> set (map ym U)" "b \<in> set (map ym U)" for a b
    using valid[OF that(1)] valid[OF that(2)]
      yyyy_mm_order(1)[where ?y1.0 = "fst a" and ?y2.0 = "fst b" and ?m1.0 = "snd a" and ?m2.0 = "snd b"] by (simp add: kf_def)
  have kf_eq: "(kf a = kf b) = (a = b)" if "a \<in> set (map ym U)" "b \<in> set (map ym U)" for a b
    using valid[OF that(1)] valid[OF that(2)]
      yyyy_mm_order(2)[where ?y1.0 = "fst a" and ?y2.0 = "fst b" and ?m1.0 = "snd a" and ?m2.0 = "snd b"] by (simp add: kf_def prod_eq_iff)
  have setS: "set S = set (map ym U)" by (simp add: S_def)
  have keys: "sort (remdups (map K U)) = map kf S"
  proof -
    have Kc: "map K U = map kf (map ym U)" by (simp add: K_kf)
    have "sort (remdups (map kf (map ym U))) = map kf S"
      unfolding S_def by (rule sort_remdups_map_mono) (simp_all only: kf_less kf_eq)
    then show ?thesis by (simp only: Kc)
  qed
  have q: "q_expenses_by_month d user_id = take 6 (rev (map (\<lambda>k. (k, g k)) (map kf S)))"
  proof -
    have "map (\<lambda>(month, es). (month, sum_list (map e_amount es))) (sql_group_by K U)
        = map (\<lambda>k. (k, g k)) (remdups (map K U))"
      by (simp add: sql_group_by_def g_def)
    then show ?thesis
      by (simp add: q_expenses_by_month_def order_by_desc_def U_def[symmetric] K_def[symmetric]
          sort_key_map_pair keys)
  qed
  define T where "T = drop (length S - 6) S"
  have pairs: "map (\<lambda>(month, total). (month, to_float total)) (rev (q_expenses_by_month d user_id))
      = map (\<lambda>p. (kf p, to_float (g (kf p)))) T"
    by (simp add: q rev_take_rev T_def drop_map comp_def)
  have T_sub: "set T \<subseteq> set (map ym U)" using set_drop_subset[of "length S - 6" S] setS T_def by simp
  have "distinct T" by (simp add: T_def S_def)
  moreover have "inj_on kf (set T)"
    by (rule inj_onI) (use T_sub kf_eq in blast)
  ultimately have "distinct (map kf T)" by (simp add: distinct_map)
  then have dist: "distinct (map fst (map (\<lambda>p. (kf p, to_float (g (kf p)))) T))"
    by (simp add: comp_def)
  have by_month: "expenses_by_month (comprehensive_report to_float d user_id today)
      = map (\<lambda>p. (kf p, to_float (g (kf p)))) T"
    using py_dict_distinct[OF dist] by (simp add: comprehensive_report_def Let_def pairs)
  have val: "g (kf p) = sum_list (map e_amount
       (filter (\<lambda>e. e_user_id e = user_id \<and> year_month (e_expense_date e) = p) (expenses d)))"
    if "p \<in> set T" for p
  proof -
    have "filter (\<lambda>e. K e = kf p) U = filter (\<lambda>e. ym e = p) U"
    proof (rule filter_cong[OF refl])
      fix e assume "e \<in> set U"
      then have "ym e \<in> set (map ym U)" by simp
      moreover from that T_sub have "p \<in> set (map ym U)" by blast
      ultimately show "(K e = kf p) = (ym e = p)" using kf_eq by (simp add: K_kf)
    qed
    then show ?thesis by (simp add: g_def U_def ym_def)
  qed
  have months: "year_month ` e_expense_date ` {e \<in> set (expenses d). e_user_id e = user_id} = set (map ym U)"
    by (auto simp: U_def ym_def)
  have "map (\<lambda>p. (kf p, to_float (g (kf p)))) T =
     map (\<lambda>ym. (yyyy_mm (fst ym) (snd ym),
                to_float (sum_list (map e_amount
                  (filter (\<lambda>e. e_user_id e = user_id \<and> year_month (e_expense_date e) = ym)
                     (expenses d)))))) T"
    by (rule map_cong[OF refl]) (simp add: val[unfolded kf_def] kf_def)
  moreover have "(let months = sorted_list_of_set
              (year_month ` e_expense_date ` {e \<in> set (expenses d). e_user_id e = user_id})
        in drop (length months - 6) months) = T"
    by (simp add: months T_def S_def Let_def)
  ultimately show ?thesis by (simp only: by_month)
qed

lemma y10k_keys:
  "to_char_YYYY_MM (make_date 10000 1 15) = ''10000-01''"
  "to_char_YYYY_MM (make_date 2024 1 15) = ''2024-01''"
proof -
  have y: "year_of (make_date 10000 1 15) = 10000" "date_part_month (make_date 10000 1 15) = 1"
    "year_of (make_date 2024 1 15) = 2024" "date_part_month (make_date 2024 1 15) = 1"
    by code_simp+
  have d: "dec 10000 = ''10000''" "dec 2024 = ''2024''" "dec (Suc 0) = ''1''"
    by (simp_all add: dec.simps digit_char_def)
  show "to_char_YYYY_MM (make_date 10000 1 15) = ''10000-01''"
    "to_char_YYYY_MM (make_date 2024 1 15) = ''2024-01''"
    by (simp_all add: to_char_YYYY_MM_def yyyy_mm_def y d lpad0_def)
qed

text \<open>
  Claim C4 as stated fails for a year of five digits. The keys are ordered as text, and
  \<open>10000-01\<close> sorts before \<open>2024-01\<close>: January 10000 comes first in the output although
  it is the later month.
\<close>

theorem expenses_by_month_five_digit_year:
  "expenses_by_month (comprehensive_report (\<lambda>x. x) y10k_db 1 (make_date 2024 3 19))
     = [(''10000-01'', 5), (''2024-01'', 7)]
   \<and> year_month (make_date 2024 1 15) < year_month (make_date 10000 1 15)"
proof -
  have "q_expenses_by_month y10k_db 1 = [(''2024-01'', 7), (''10000-01'', 5)]"
    by (simp add: q_expenses_by_month_def y10k_db_def empty_db_def ex_expense_def
        sql_group_by_def order_by_desc_def y10k_keys)
  then have "expenses_by_month (comprehensive_report (\<lambda>x. x) y10k_db 1 (make_date 2024 3 19))
     = [(''10000-01'', 5), (''2024-01'', 7)]"
    by (simp add: comprehensive_report_def Let_def py_dict_def del: One_nat_def)
  moreover have "year_month (make_date 2024 1 15) < year_month (make_date 10000 1 15)"
    by code_simp
  ultimately show ?thesis by (simp only: simp_thms)
qed

theorem expenses_by_month_chronological_witness:
  "expenses_by_month (comprehensive_report (\<lambda>x. x) report_db 1 (make_date 2024 3 19))
     = [(''2024-02'', 3), (''2024-03'', 21)]"
proof -
  have h: "\<forall>e\<in>set (expenses report_db). e_user_id e = 1 \<longrightarrow>
      0 < year_of (e_expense_date e) \<and> year_of (e_expense_date e) < 10000"
    by code_simp
  have M: "(let months = sorted_list_of_set
              (year_month ` e_expense_date ` {e \<in> set (expenses report_db). e_user_id e = 1})
        in drop (length months - 6) months) = [(2024, 2), (2024, 3)]"
    by code_simp
  have d: "dec 2024 = ''2024''" "dec 3 = ''3''" "dec 2 = ''2''"
    by (simp_all add: dec.simps digit_char_def)
  have k: "yyyy_mm 2024 2 = ''2024-02''" "yyyy_mm 2024 3 = ''2024-03''"
    by (simp_all add: yyyy_mm_def d lpad0_def)
  have s: "sum_list (map e_amount (filter (\<lambda>e. e_user_id e = 1 \<and> year_month (e_expense_date e) = (2024, 2))
             (expenses report_db))) = 3"
    "sum_list (map e_amount (filter (\<lambda>e. e_user_id e = 1 \<and> year_month (e_expense_date e) = (2024, 3))
             (expenses report_db))) = 21"
    by code_simp+
  show ?thesis
    unfolding expenses_by_month_chronological[OF h, of "\<lambda>x. x" "make_date 2024 3 19"] M
    by (simp only: list.map fst_conv snd_conv k s)
qed

end
